theory Spec2Isabelle
  imports Complex_Main "HOL-Library.AList"
begin


section \<open>The pricing actor: sessions, token registry and subscriber index\<close>

text \<open>
  The class \<open>PricingDurableObject\<close> owns three JavaScript maps.  \<open>sessions\<close> and
  \<open>tokenRegistry\<close> are only ever looked up by key, so they are partial functions;
  \<open>tokenSubscribers\<close> is iterated (its keys by a refresh pass, its values by the fan-out), so
  it is an association list in insertion order, written with \<open>AList.update\<close> (replace in
  place, or append a new key) and \<open>AList.delete\<close>.  A JavaScript \<open>Set\<close> of strings is a
  list in insertion order; \<open>set_add\<close> and \<open>set_delete\<close> are its \<open>add\<close> and \<open>delete\<close>.
\<close>

record DexPriceInfo =
  info_priceInWei :: string
  info_poolAddress :: string
  info_liquidity :: string
  info_fee :: "nat option"
  info_error :: "string option"
  info_lastUpdate :: nat

record TokenInfo =
  symbol :: string
  address :: string
  decimals :: nat
  name :: string
  dexPrices :: "(string \<times> DexPriceInfo) list"
  lastUpdate :: nat
  initialized :: bool

text \<open>
  The socket of a session is outside the program; the two fields say how it behaves when
  the fan-out reaches it: whether \<open>readyState\<close> is \<open>OPEN\<close>, and whether \<open>send\<close> throws.
\<close>

record WebSocket =
  readyStateOpen :: bool
  sendThrows :: bool

record ClientSession =
  session_id :: string
  webSocket :: WebSocket
  subscribedTokens :: "string list"
  lastActivity :: nat

record PricingDurableObject =
  sessions :: "string \<rightharpoonup> ClientSession"
  hasPriceService :: bool
  tokenRegistry :: "string \<rightharpoonup> TokenInfo"
  tokenSubscribers :: "(string \<times> string list) list"

definition set_add :: "'a \<Rightarrow> 'a list \<Rightarrow> 'a list" where
  "set_add x xs = (if x \<in> set xs then xs else xs @ [x])"

definition set_delete :: "'a \<Rightarrow> 'a list \<Rightarrow> 'a list" where
  "set_delete x xs = removeAll x xs"

definition FEATURED_TOKENS :: "(string \<times> TokenInfo) list" where
  "FEATURED_TOKENS =
    [(''0xC02aaA39b223FE8D0A0e5C4F27eAD9083C756Cc2'',
      \<lparr>symbol = ''WETH'', address = ''0xC02aaA39b223FE8D0A0e5C4F27eAD9083C756Cc2'',
       decimals = 18, name = ''Wrapped Ether'', dexPrices = [], lastUpdate = 0,
       initialized = False\<rparr>),
     (''0x2260FAC5E5542a773Aa44fBCfeDf7C193bc2C599'',
      \<lparr>symbol = ''WBTC'', address = ''0x2260FAC5E5542a773Aa44fBCfeDf7C193bc2C599'',
       decimals = 8, name = ''Wrapped BTC'', dexPrices = [], lastUpdate = 0,
       initialized = False\<rparr>),
     (''0x1f9840a85d5aF5bf1D1762F925BDADdC4201F984'',
      \<lparr>symbol = ''UNI'', address = ''0x1f9840a85d5aF5bf1D1762F925BDADdC4201F984'',
       decimals = 18, name = ''Uniswap'', dexPrices = [], lastUpdate = 0,
       initialized = False\<rparr>)]"

text \<open>
  The state after the constructor: no session, the registry seeded with the featured
  tokens, and an empty subscriber set for each of them (\<open>initializeTokenSubscribers\<close>).
  \<open>new Map(FEATURED_TOKENS)\<close> copies the keys but shares the three records, which are
  objects of the module: \<open>featured\<close> gives the contents of the record of each featured
  address when the constructor runs.  For the first actor of an isolate these are the contents
  written in \<open>FEATURED_TOKENS\<close> (\<open>featured_written\<close>); a later actor finds what the earlier
  ones stored in them.  The first argument says whether \<open>initializeProvider\<close> found an RPC
  URL and built the price service.
\<close>

definition initial_state :: "bool \<Rightarrow> (string \<Rightarrow> TokenInfo) \<Rightarrow> PricingDurableObject" where
  "initial_state svc featured =
    \<lparr>sessions = Map.empty, hasPriceService = svc,
     tokenRegistry = (\<lambda>a. if a \<in> set (map fst FEATURED_TOKENS) then Some (featured a) else None),
     tokenSubscribers = map (\<lambda>(a, _). (a, [])) FEATURED_TOKENS\<rparr>"

definition placeholder :: "string \<Rightarrow> TokenInfo" where
  "placeholder tokenAddress =
    \<lparr>symbol = ''UNKNOWN'', address = tokenAddress, decimals = 18, name = ''Unknown Token'',
     dexPrices = [], lastUpdate = 0, initialized = False\<rparr>"

definition featured_written :: "string \<Rightarrow> TokenInfo" where
  "featured_written a = (case map_of FEATURED_TOKENS a of Some r \<Rightarrow> r | None \<Rightarrow> placeholder a)"

definition subscribeClientToToken ::
  "string \<Rightarrow> string \<Rightarrow> PricingDurableObject \<Rightarrow> PricingDurableObject" where
  "subscribeClientToToken clientId tokenAddress st =
    (case sessions st clientId of
       None \<Rightarrow> st
     | Some session \<Rightarrow>
         let session' = session\<lparr>subscribedTokens := set_add tokenAddress (subscribedTokens session)\<rparr>;
             subs0 = (case map_of (tokenSubscribers st) tokenAddress of
                        None \<Rightarrow> AList.update tokenAddress [] (tokenSubscribers st)
                      | Some _ \<Rightarrow> tokenSubscribers st);
             subs1 = (case map_of subs0 tokenAddress of
                        None \<Rightarrow> subs0
                      | Some cs \<Rightarrow> AList.update tokenAddress (set_add clientId cs) subs0);
             reg = (case tokenRegistry st tokenAddress of
                      None \<Rightarrow> (tokenRegistry st)(tokenAddress \<mapsto> placeholder tokenAddress)
                    | Some _ \<Rightarrow> tokenRegistry st)
         in st\<lparr>sessions := (sessions st)(clientId \<mapsto> session'),
               tokenRegistry := reg, tokenSubscribers := subs1\<rparr>)"

definition unsubscribeClientFromToken ::
  "string \<Rightarrow> string \<Rightarrow> PricingDurableObject \<Rightarrow> PricingDurableObject" where
  "unsubscribeClientFromToken clientId tokenAddress st =
    (case sessions st clientId of
       None \<Rightarrow> st
     | Some session \<Rightarrow>
         let session' = session\<lparr>subscribedTokens := set_delete tokenAddress (subscribedTokens session)\<rparr>;
             subs = (case map_of (tokenSubscribers st) tokenAddress of
                       None \<Rightarrow> tokenSubscribers st
                     | Some cs \<Rightarrow>
                         let cs' = set_delete clientId cs
                         in if length cs' = 0 then AList.delete tokenAddress (tokenSubscribers st)
                            else AList.update tokenAddress cs' (tokenSubscribers st))
         in st\<lparr>sessions := (sessions st)(clientId \<mapsto> session'), tokenSubscribers := subs\<rparr>)"

text \<open>
  \<open>removeClient\<close> walks \<open>session.subscribedTokens\<close> with \<open>for ... of\<close> while
  \<open>unsubscribeClientFromToken\<close> deletes the element just visited from that same set.  A
  JavaScript set iterator is not disturbed by the deletion of an element it has already
  passed, so every element of the set at entry is visited once, in insertion order: the
  loop is a fold over the list the session holds at entry.
\<close>

definition removeClient :: "string \<Rightarrow> PricingDurableObject \<Rightarrow> PricingDurableObject" where
  "removeClient clientId st =
    (case sessions st clientId of
       None \<Rightarrow> st
     | Some session \<Rightarrow>
         let st' = fold (unsubscribeClientFromToken clientId) (subscribedTokens session) st
         in st'\<lparr>sessions := (sessions st')(clientId := None)\<rparr>)"

text \<open>
  The first steps of \<open>handleWebSocket\<close>: a session with an empty subscription set is stored
  under the generated identifier, then subscribed to each initial token.
\<close>

definition newSession :: "string \<Rightarrow> WebSocket \<Rightarrow> nat \<Rightarrow> ClientSession" where
  "newSession clientId ws now =
    \<lparr>session_id = clientId, webSocket = ws, subscribedTokens = [], lastActivity = now\<rparr>"

definition connectClient ::
  "string \<Rightarrow> WebSocket \<Rightarrow> nat \<Rightarrow> string list \<Rightarrow> PricingDurableObject \<Rightarrow> PricingDurableObject" where
  "connectClient clientId ws now initialTokens st =
    fold (subscribeClientToToken clientId) initialTokens
      (st\<lparr>sessions := (sessions st)(clientId \<mapsto> newSession clientId ws now)\<rparr>)"

text \<open>
  The registry invariant: a token is in a session's subscription set exactly when that
  session's identifier is in the token's subscriber set.
\<close>

definition registry_consistent :: "PricingDurableObject \<Rightarrow> bool" where
  "registry_consistent st \<longleftrightarrow>
    (\<forall>clientId tokenAddress.
       (\<exists>session. sessions st clientId = Some session \<and> tokenAddress \<in> set (subscribedTokens session))
       \<longleftrightarrow> (\<exists>cs. map_of (tokenSubscribers st) tokenAddress = Some cs \<and> clientId \<in> set cs))"

text \<open>
  The states the actor can be in: the constructor's state, then any sequence of
  connections (under an identifier no live session has, as \<open>generateClientId\<close> draws it
  from the clock and a random suffix), subscriptions, unsubscriptions and removals.
\<close>

inductive reachable :: "PricingDurableObject \<Rightarrow> bool" where
  r_init: "reachable (initial_state svc featured)"
| r_connect: "reachable st \<Longrightarrow> sessions st clientId = None
              \<Longrightarrow> reachable (connectClient clientId ws now initialTokens st)"
| r_subscribe: "reachable st \<Longrightarrow> reachable (subscribeClientToToken clientId tokenAddress st)"
| r_unsubscribe: "reachable st \<Longrightarrow> reachable (unsubscribeClientFromToken clientId tokenAddress st)"
| r_remove: "reachable st \<Longrightarrow> reachable (removeClient clientId st)"


section \<open>Refreshing prices and detecting change\<close>

text \<open>
  \<open>PoolResult\<close> is what the price service returns for one pool.  Its \<open>fee\<close> is \<open>undefined\<close>
  for an entry that comes from the pool index.
\<close>

record PoolResult =
  dex :: string
  poolAddress :: string
  liquidity :: string
  priceInWei :: string
  baseToken :: string
  baseTokenSymbol :: string
  fee :: "nat option"

text \<open>
  \<open>updateSingleTokenPrice\<close> compares \<open>JSON.stringify(tokenInfo.dexPrices)\<close> before and after.
  \<open>JSON.stringify\<close> writes the own properties of an object in insertion order, leaves out a
  property whose value is \<open>undefined\<close>, and quotes strings, so two of these objects have the
  same text exactly when they have the same tree of keys and values: the comparison of the
  two texts is the comparison of the two trees.  (The keys are venue names and the word
  \<open>error\<close>, never array indices, which JavaScript would move to the front.)
\<close>

datatype json = JString string | JNumber nat | JObject "(string \<times> json) list"

definition info_json :: "DexPriceInfo \<Rightarrow> json" where
  "info_json e =
    JObject ([(''priceInWei'', JString (info_priceInWei e)),
              (''poolAddress'', JString (info_poolAddress e)),
              (''liquidity'', JString (info_liquidity e))]
             @ (case info_fee e of None \<Rightarrow> [] | Some f \<Rightarrow> [(''fee'', JNumber f)])
             @ (case info_error e of None \<Rightarrow> [] | Some m \<Rightarrow> [(''error'', JString m)])
             @ [(''lastUpdate'', JNumber (info_lastUpdate e))])"

definition JSON_stringify :: "(string \<times> DexPriceInfo) list \<Rightarrow> json" where
  "JSON_stringify prices = JObject (map (\<lambda>(k, e). (k, info_json e)) prices)"

text \<open>
  The loop that fills the emptied price map.  Every entry reads \<open>Date.now()\<close>; \<open>clock i\<close> is
  the value of the \<open>i\<close>-th reading of the clock during this refresh.  An assignment to a key
  the object already has replaces the value and keeps the key's place.
\<close>

fun populate ::
  "(nat \<Rightarrow> nat) \<Rightarrow> nat \<Rightarrow> PoolResult list \<Rightarrow> (string \<times> DexPriceInfo) list
   \<Rightarrow> (string \<times> DexPriceInfo) list" where
  "populate clock i [] acc = acc"
| "populate clock i (dexPrice # rest) acc =
     populate clock (Suc i) rest
       (AList.update (dex dexPrice)
          \<lparr>info_priceInWei = priceInWei dexPrice, info_poolAddress = poolAddress dexPrice,
           info_liquidity = liquidity dexPrice, info_fee = fee dexPrice, info_error = None,
           info_lastUpdate = clock i\<rparr> acc)"

text \<open>
  The per-venue price set a list of pool results amounts to: for every venue the rate, pool
  address, liquidity and fee of the last result of that venue.  It is the content of the
  price map a refresh computes, without the clock readings.
\<close>

definition venuePrices ::
  "PoolResult list \<Rightarrow> string \<rightharpoonup> string \<times> string \<times> string \<times> nat option" where
  "venuePrices found =
    map_of (rev (map (\<lambda>p. (dex p, (priceInWei p, poolAddress p, liquidity p, fee p))) found))"

definition error_entry :: "string \<Rightarrow> nat \<Rightarrow> DexPriceInfo" where
  "error_entry err now =
    \<lparr>info_priceInWei = ''0'', info_poolAddress = [], info_liquidity = ''0'', info_fee = None,
     info_error = Some (''Failed to fetch prices: '' @ err), info_lastUpdate = now\<rparr>"

text \<open>
  One refresh of one token.  The call of \<open>getAllAvailablePrices\<close> is the only statement of the
  \<open>try\<close> block that can throw, and it runs before anything is written: \<open>fetched\<close> is its
  outcome, \<open>Inl\<close> the error thrown (as the text the template string makes of it), \<open>Inr\<close> the
  list returned.  The result is the new state and the boolean the method returns.
\<close>

definition updateSingleTokenPrice ::
  "(nat \<Rightarrow> nat) \<Rightarrow> string + PoolResult list \<Rightarrow> string \<Rightarrow> PricingDurableObject
   \<Rightarrow> PricingDurableObject \<times> bool" where
  "updateSingleTokenPrice clock fetched tokenAddress st =
    (if \<not> hasPriceService st then (st, False)
     else case tokenRegistry st tokenAddress of
       None \<Rightarrow> (st, False)
     | Some tokenInfo \<Rightarrow>
        (case fetched of
           Inr dexPrices_new \<Rightarrow>
             let oldPricesJson = JSON_stringify (dexPrices tokenInfo);
                 wasInitialized = initialized tokenInfo;
                 prices = populate clock 0 dexPrices_new [];
                 tokenInfo' = tokenInfo\<lparr>dexPrices := prices,
                                lastUpdate := clock (length dexPrices_new), initialized := True\<rparr>;
                 st' = st\<lparr>tokenRegistry := (tokenRegistry st)(tokenAddress \<mapsto> tokenInfo')\<rparr>
             in if wasInitialized
                then (let newPricesJson = JSON_stringify (dexPrices tokenInfo');
                          pricesChanged = (oldPricesJson \<noteq> newPricesJson)
                      in if pricesChanged then (st', True) else (st', False))
                else (st', False)
         | Inl err \<Rightarrow>
             let sentinel = (length (dexPrices tokenInfo) = 0);
                 prices = (if sentinel then [(''error'', error_entry err (clock 0))]
                           else dexPrices tokenInfo);
                 tokenInfo' = tokenInfo\<lparr>dexPrices := prices,
                                lastUpdate := clock (if sentinel then 1 else 0),
                                initialized := True\<rparr>
             in (st\<lparr>tokenRegistry := (tokenRegistry st)(tokenAddress \<mapsto> tokenInfo')\<rparr>, False)))"

text \<open>
  A refresh pass starts one \<open>updateSingleTokenPrice\<close> per key of \<open>tokenSubscribers\<close> and waits
  for all of them.  Each one writes only the record of its own token, after its own fetch
  has answered, so the pass is the updates taken one after the other, in key order; \<open>fetch\<close>
  gives the outcome of the price service for a token and \<open>clock\<close> the clock readings of its
  update.  The list returned holds the boolean of each update.
\<close>

fun updateTokens ::
  "(string \<Rightarrow> string + PoolResult list) \<Rightarrow> (string \<Rightarrow> nat \<Rightarrow> nat) \<Rightarrow> string list
   \<Rightarrow> PricingDurableObject \<Rightarrow> PricingDurableObject \<times> bool list" where
  "updateTokens fetch clock [] st = (st, [])"
| "updateTokens fetch clock (tokenAddress # rest) st =
     (let (st1, changed) = updateSingleTokenPrice (clock tokenAddress) (fetch tokenAddress) tokenAddress st;
          (st2, results) = updateTokens fetch clock rest st1
      in (st2, changed # results))"

text \<open>A message of type \<open>tokens\<close> that reached a client: whom, the records sent, the timestamp.\<close>

record Push =
  recipient :: string
  data :: "TokenInfo list"
  timestamp :: nat

definition subscribedData :: "PricingDurableObject \<Rightarrow> ClientSession \<Rightarrow> TokenInfo list" where
  "subscribedData st session = List.map_filter (tokenRegistry st) (subscribedTokens session)"

definition allClientIds :: "PricingDurableObject \<Rightarrow> string list" where
  "allClientIds st = fold set_add (concat (map snd (tokenSubscribers st))) []"

text \<open>
  The loop of \<open>notifyAllClients\<close> over the collected identifiers.  A client without a session
  or whose socket is not open is passed over; a \<open>send\<close> that throws delivers nothing and
  removes the client.  \<open>sendTime\<close> is the clock reading put into the message for a client.
\<close>

fun notifyLoop ::
  "(string \<Rightarrow> nat) \<Rightarrow> string list \<Rightarrow> PricingDurableObject \<Rightarrow> PricingDurableObject \<times> Push list" where
  "notifyLoop sendTime [] st = (st, [])"
| "notifyLoop sendTime (clientId # rest) st =
     (case sessions st clientId of
        None \<Rightarrow> notifyLoop sendTime rest st
      | Some session \<Rightarrow>
          if readyStateOpen (webSocket session)
          then (if sendThrows (webSocket session)
                then notifyLoop sendTime rest (removeClient clientId st)
                else (let (st', sent) = notifyLoop sendTime rest st
                      in (st', \<lparr>recipient = clientId, data = subscribedData st session,
                                timestamp = sendTime clientId\<rparr> # sent)))
          else notifyLoop sendTime rest st)"

definition notifyAllClients ::
  "(string \<Rightarrow> nat) \<Rightarrow> PricingDurableObject \<Rightarrow> PricingDurableObject \<times> Push list" where
  "notifyAllClients sendTime st = notifyLoop sendTime (allClientIds st) st"

definition updateAllActivePrices ::
  "(string \<Rightarrow> string + PoolResult list) \<Rightarrow> (string \<Rightarrow> nat \<Rightarrow> nat) \<Rightarrow> (string \<Rightarrow> nat)
   \<Rightarrow> PricingDurableObject \<Rightarrow> PricingDurableObject \<times> Push list" where
  "updateAllActivePrices fetch clock sendTime st =
    (let (st1, results) = updateTokens fetch clock (map fst (tokenSubscribers st)) st;
         hasChanges = (\<exists>r \<in> set results. r = True)
     in if hasChanges then notifyAllClients sendTime st1 else (st1, []))"

definition updateAllActivePricesSilent ::
  "(string \<Rightarrow> string + PoolResult list) \<Rightarrow> (string \<Rightarrow> nat \<Rightarrow> nat)
   \<Rightarrow> PricingDurableObject \<Rightarrow> PricingDurableObject" where
  "updateAllActivePricesSilent fetch clock st =
    fst (updateTokens fetch clock (map fst (tokenSubscribers st)) st)"

section \<open>The price service\<close>

subsection \<open>Strings\<close>

text \<open>
  \<open>toLowerCase\<close> on the ASCII letters (addresses and venue names are ASCII), \<open>includes\<close>
  (here \<open>str_includes\<close>),
  and \<open>BigInt.prototype.toString\<close>, which writes a non-negative integer in decimal.
\<close>

definition lower_char :: "char \<Rightarrow> char" where
  "lower_char c =
    (case map_of (zip ''ABCDEFGHIJKLMNOPQRSTUVWXYZ'' ''abcdefghijklmnopqrstuvwxyz'') c of
       None \<Rightarrow> c | Some l \<Rightarrow> l)"

definition toLowerCase :: "string \<Rightarrow> string" where
  "toLowerCase s = map lower_char s"

fun starts_with :: "string \<Rightarrow> string \<Rightarrow> bool" where
  "starts_with s [] = True"
| "starts_with [] (c # cs) = False"
| "starts_with (x # xs) (c # cs) = (x = c \<and> starts_with xs cs)"

fun str_includes :: "string \<Rightarrow> string \<Rightarrow> bool" where
  "str_includes [] sub = (sub = [])"
| "str_includes (x # xs) sub = (starts_with (x # xs) sub \<or> str_includes xs sub)"

definition digit_char :: "nat \<Rightarrow> char" where
  "digit_char d = ''0123456789'' ! d"

function show_nat :: "nat \<Rightarrow> string" where
  "show_nat n = (if n < 10 then [digit_char n] else show_nat (n div 10) @ [digit_char (n mod 10)])"
  by pat_completeness auto
termination
  by (relation "measure id") auto

declare show_nat.simps [simp del]

subsection \<open>The world outside\<close>

text \<open>
  One entry of the pool index's answer.  \<open>exchange_name\<close> is \<open>None\<close> when it is null or missing;
  \<open>pair\<close> is \<open>None\<close> when the entry has no token list (reading it then throws).
\<close>

record MoralisPairToken =
  token_address :: string
  token_symbol :: string
  pair_token_type :: string

record MoralisPair =
  exchange_name :: "string option"
  pair_address :: string
  liquidity_usd :: rat
  pair :: "MoralisPairToken list option"

text \<open>
  What the HTTP query of the index comes to: \<open>fetch\<close> throws, the status is not a success,
  the body is not JSON of the expected shape (\<open>response.json()\<close> or the loop over the pairs
  throws), or the body's \<open>pairs\<close> (an absent \<open>pairs\<close> is the empty list).
\<close>

datatype MoralisReply = FetchThrows | NotOk | BadBody | Pairs "MoralisPair list"

text \<open>
  Everything the service reads.  A contract call is a function to an option, \<open>None\<close> when the
  call throws (a revert, a missing function, a timeout); the chain is read as one snapshot.
  \<open>call_slot0\<close> gives \<open>sqrtPriceX96\<close>, \<open>call_getReserves\<close> the two reserves,
  \<open>call_getPool factory tokenA tokenB fee\<close> and \<open>call_getPair factory tokenA tokenB\<close> the
  factory lookups.  JavaScript numbers are doubles: a finite double is the rational it
  stands for, \<open>parseFloat\<close> and \<open>Number.prototype.toString\<close> are taken as given, and
  \<open>sqrtToBigInt x\<close> is \<open>BigInt(Math.sqrt(Number(x)))\<close>, \<open>None\<close> when the square root is not a
  whole number and \<open>BigInt\<close> throws.
\<close>

record Env =
  moralisReply :: "string \<Rightarrow> MoralisReply"
  call_token0 :: "string \<Rightarrow> string option"
  call_token1 :: "string \<Rightarrow> string option"
  call_decimals :: "string \<Rightarrow> nat option"
  call_symbol :: "string \<Rightarrow> string option"
  call_slot0 :: "string \<Rightarrow> nat option"
  call_getReserves :: "string \<Rightarrow> (nat \<times> nat) option"
  call_liquidity :: "string \<Rightarrow> nat option"
  call_getPool :: "string \<Rightarrow> string \<Rightarrow> string \<Rightarrow> nat \<Rightarrow> string option"
  call_getPair :: "string \<Rightarrow> string \<Rightarrow> string \<Rightarrow> string option"
  parseFloat :: "string \<Rightarrow> rat"
  numberToString :: "rat \<Rightarrow> string"
  sqrtToBigInt :: "nat \<Rightarrow> nat option"

definition UNISWAP_V3_FACTORY :: string where
  "UNISWAP_V3_FACTORY = ''0x1F98431c8aD98523631AE4a59f267346ea31F984''"
definition UNISWAP_V2_FACTORY :: string where
  "UNISWAP_V2_FACTORY = ''0x5C69bEe701ef814a2B6a3EDD4B1652CB9cc5aA6f''"
definition SUSHISWAP_FACTORY :: string where
  "SUSHISWAP_FACTORY = ''0xC0AEe478e3658e2610c5F7A4A2E1777cE9e4f2Ac''"
definition PANCAKESWAP_V2_FACTORY :: string where
  "PANCAKESWAP_V2_FACTORY = ''0x1097053Fd2ea711dad45caCcc45EfF7548fCB362''"
definition PANCAKESWAP_V3_FACTORY :: string where
  "PANCAKESWAP_V3_FACTORY = ''0x0BFbCF9fa4f9C56B0F40a671Ad40E0805A091865''"
definition WETH_ADDRESS :: string where
  "WETH_ADDRESS = ''0xC02aaA39b223FE8D0A0e5C4F27eAD9083C756Cc2''"
definition ZeroAddress :: string where
  "ZeroAddress = ''0x0000000000000000000000000000000000000000''"
definition V3_FEE_TIERS :: "nat list" where
  "V3_FEE_TIERS = [100, 500, 3000, 10000]"

subsection \<open>The rate of one pool\<close>

text \<open>What \<open>getTokenPriceFromPool\<close> returns when it does not return \<open>null\<close>.\<close>

record Quote =
  quote_priceInWei :: string
  quote_baseToken :: string
  quote_baseTokenSymbol :: string

text \<open>
  One round of the loop over \<open>[true, false]\<close>: the pool read as a concentrated-liquidity pool
  (\<open>isV3\<close>) or as a constant-product pair.  \<open>None\<close> is every way the round ends in
  \<open>continue\<close>: a call that throws, empty reserves, or a \<open>BigInt\<close> division by zero (which
  throws a \<open>RangeError\<close>).  Division of \<open>BigInt\<close>s of one sign truncates, as \<open>div\<close> on \<open>nat\<close>.
\<close>

definition priceAttempt :: "Env \<Rightarrow> bool \<Rightarrow> string \<Rightarrow> string \<Rightarrow> Quote option" where
  "priceAttempt env isV3 tokenAddress poolAddr =
    (case (call_token0 env poolAddr, call_token1 env poolAddr) of
       (Some token0, Some token1) \<Rightarrow>
         (case (call_decimals env token0, call_decimals env token1,
                call_symbol env token0, call_symbol env token1) of
            (Some decimal0, Some decimal1, Some symbol0, Some symbol1) \<Rightarrow>
              let isTokenToken0 = (toLowerCase token0 = toLowerCase tokenAddress);
                  otherToken = (if isTokenToken0 then token1 else token0);
                  otherSymbol = (if isTokenToken0 then symbol1 else symbol0);
                  result = (\<lambda>price. Some \<lparr>quote_priceInWei = show_nat price,
                              quote_baseToken = otherToken, quote_baseTokenSymbol = otherSymbol\<rparr>)
              in if isV3
                 then (case call_slot0 env poolAddr of
                         None \<Rightarrow> None
                       | Some sqrtPriceBN \<Rightarrow>
                           let Q96 = (2::nat) ^ 96;
                               decimal0BN = (10::nat) ^ decimal0;
                               decimal1BN = (10::nat) ^ decimal1;
                               sqrtPrice = sqrtPriceBN * sqrtPriceBN
                           in if isTokenToken0
                              then result ((sqrtPrice * decimal1BN) div (Q96 * Q96 * decimal0BN))
                              else if sqrtPrice * decimal1BN = 0 then None
                              else result ((Q96 * Q96 * decimal0BN * decimal1BN)
                                             div (sqrtPrice * decimal1BN)))
                 else (case call_getReserves env poolAddr of
                         None \<Rightarrow> None
                       | Some (reserve0, reserve1) \<Rightarrow>
                           if reserve0 = 0 \<or> reserve1 = 0 then None
                           else let decimal0BN = (10::nat) ^ decimal0;
                                    decimal1BN = (10::nat) ^ decimal1
                                in if isTokenToken0
                                   then result ((reserve1 * decimal1BN) div (reserve0 * decimal0BN))
                                   else result ((reserve0 * decimal0BN) div (reserve1 * decimal1BN)))
          | _ \<Rightarrow> None)
     | _ \<Rightarrow> None)"

definition getTokenPriceFromPool :: "Env \<Rightarrow> string \<Rightarrow> string \<Rightarrow> Quote option" where
  "getTokenPriceFromPool env tokenAddress poolAddr =
    (case priceAttempt env True tokenAddress poolAddr of
       Some r \<Rightarrow> Some r
     | None \<Rightarrow> priceAttempt env False tokenAddress poolAddr)"

definition getPoolLiquidity :: "Env \<Rightarrow> string \<Rightarrow> bool \<Rightarrow> nat" where
  "getPoolLiquidity env poolAddr isV3 =
    (if isV3
     then (case call_liquidity env poolAddr of None \<Rightarrow> 0 | Some l \<Rightarrow> l)
     else (case call_getReserves env poolAddr of
             None \<Rightarrow> 0
           | Some (reserve0, reserve1) \<Rightarrow>
               if reserve0 = 0 \<or> reserve1 = 0 then 0
               else (case sqrtToBigInt env (reserve0 * reserve1) of None \<Rightarrow> 0 | Some l \<Rightarrow> l)))"

subsection \<open>Direct discovery\<close>

definition mkPoolResult ::
  "string \<Rightarrow> string \<Rightarrow> string \<Rightarrow> Quote \<Rightarrow> nat option \<Rightarrow> PoolResult" where
  "mkPoolResult dexName poolAddr liq priceResult feeTier =
    \<lparr>dex = dexName, poolAddress = poolAddr, liquidity = liq,
     priceInWei = quote_priceInWei priceResult, baseToken = quote_baseToken priceResult,
     baseTokenSymbol = quote_baseTokenSymbol priceResult, fee = feeTier\<rparr>"

text \<open>
  The body of the loop over the fee tiers: the results one tier adds.  A \<open>getPool\<close> that
  throws is caught inside the loop and the tier is skipped.
\<close>

definition v3Tier :: "Env \<Rightarrow> string \<Rightarrow> string \<Rightarrow> string \<Rightarrow> string \<Rightarrow> nat \<Rightarrow> PoolResult list" where
  "v3Tier env factoryAddress tokenA tokenB dexName feeTier =
    (case call_getPool env factoryAddress tokenA tokenB feeTier of
       None \<Rightarrow> []
     | Some poolAddr \<Rightarrow>
         if poolAddr \<noteq> ZeroAddress
         then (let liq = getPoolLiquidity env poolAddr True
               in if liq > 0
                  then (case getTokenPriceFromPool env tokenA poolAddr of
                          Some priceResult \<Rightarrow>
                            [mkPoolResult dexName poolAddr (show_nat liq) priceResult (Some feeTier)]
                        | None \<Rightarrow> [])
                  else [])
         else [])"

definition v2FactoryAddress :: "string \<Rightarrow> string option" where
  "v2FactoryAddress dexName =
    map_of [(''uniswap_v2'', UNISWAP_V2_FACTORY), (''sushiswap'', SUSHISWAP_FACTORY),
            (''pancakeswap_v2'', PANCAKESWAP_V2_FACTORY)] dexName"

text \<open>
  \<open>getDexPrices\<close>.  For a constant-product venue a \<open>getPair\<close> that throws is caught by the
  outer \<open>try\<close>, and the (empty) list is returned.
\<close>

definition getDexPrices :: "Env \<Rightarrow> string \<Rightarrow> string \<Rightarrow> string \<Rightarrow> PoolResult list" where
  "getDexPrices env tokenA tokenB dexName =
    (if dexName = ''uniswap_v3'' \<or> dexName = ''pancakeswap_v3''
     then (let factoryAddress = (if dexName = ''uniswap_v3'' then UNISWAP_V3_FACTORY
                                 else PANCAKESWAP_V3_FACTORY)
           in concat (map (v3Tier env factoryAddress tokenA tokenB dexName) V3_FEE_TIERS))
     else (case v2FactoryAddress dexName of
             None \<Rightarrow> []
           | Some factoryAddress \<Rightarrow>
               (case call_getPair env factoryAddress tokenA tokenB of
                  None \<Rightarrow> []
                | Some pairAddress \<Rightarrow>
                    if pairAddress \<noteq> ZeroAddress
                    then (let liq = getPoolLiquidity env pairAddress False
                          in if liq > 0
                             then (case getTokenPriceFromPool env tokenA pairAddress of
                                     Some priceResult \<Rightarrow>
                                       [mkPoolResult dexName pairAddress (show_nat liq) priceResult None]
                                   | None \<Rightarrow> [])
                             else [])
                    else [])))"

subsection \<open>Deduplication and ranking\<close>

text \<open>
  The \<open>reduce\<close> of \<open>deduplicateAndSort\<close>: a result whose pool address is new is appended;
  one whose pool address is already there replaces the entry found (the first with that
  address) when \<open>parseFloat\<close> of its liquidity is larger, and is dropped otherwise.
\<close>

fun replaceFirst :: "('a \<Rightarrow> bool) \<Rightarrow> 'a \<Rightarrow> 'a list \<Rightarrow> 'a list" where
  "replaceFirst P y [] = []"
| "replaceFirst P y (x # xs) = (if P x then y # xs else x # replaceFirst P y xs)"

definition dedupStep :: "(string \<Rightarrow> rat) \<Rightarrow> PoolResult \<Rightarrow> PoolResult list \<Rightarrow> PoolResult list" where
  "dedupStep pf current acc =
    (case find (\<lambda>r. poolAddress r = poolAddress current) acc of
       None \<Rightarrow> acc @ [current]
     | Some existing \<Rightarrow>
         if pf (liquidity current) > pf (liquidity existing)
         then replaceFirst (\<lambda>r. poolAddress r = poolAddress current) current acc
         else acc)"

text \<open>
  The comparator handed to \<open>sort\<close>: negative when \<open>a\<close> goes first, positive when \<open>b\<close> does.
\<close>

definition compareResults :: "(string \<Rightarrow> rat) \<Rightarrow> PoolResult \<Rightarrow> PoolResult \<Rightarrow> rat" where
  "compareResults pf a b =
    (let aIsWETH = (baseTokenSymbol a = ''WETH'');
         bIsWETH = (baseTokenSymbol b = ''WETH'')
     in if aIsWETH \<and> \<not> bIsWETH then - 1
        else if \<not> aIsWETH \<and> bIsWETH then 1
        else pf (liquidity b) - pf (liquidity a))"

text \<open>
  \<open>Array.prototype.sort\<close> is stable, and with a comparator that is a consistent ordering
  (this one is, on finite numbers) its result is the one stable sorted arrangement of the
  array: the arrangement that insertion from the right builds.
\<close>

fun insertSorted :: "('a \<Rightarrow> 'a \<Rightarrow> rat) \<Rightarrow> 'a \<Rightarrow> 'a list \<Rightarrow> 'a list" where
  "insertSorted cmp x [] = [x]"
| "insertSorted cmp x (y # ys) =
     (if cmp x y \<le> 0 then x # y # ys else y # insertSorted cmp x ys)"

definition js_sort :: "('a \<Rightarrow> 'a \<Rightarrow> rat) \<Rightarrow> 'a list \<Rightarrow> 'a list" where
  "js_sort cmp xs = foldr (insertSorted cmp) xs []"

definition deduplicateAndSort :: "(string \<Rightarrow> rat) \<Rightarrow> PoolResult list \<Rightarrow> PoolResult list" where
  "deduplicateAndSort pf allResults =
    (let uniqueResults = fold (dedupStep pf) allResults []
     in js_sort (compareResults pf) (filter (\<lambda>r. priceInWei r \<noteq> ''0'') uniqueResults))"

definition baseTokens :: "(string \<times> string) list" where
  "baseTokens =
    [(WETH_ADDRESS, ''WETH''),
     (''0xA0b86991c6218b36c1d19D4a2e9Eb0cE3606eB48'', ''USDC''),
     (''0x6B175474E89094C44Da98b954EedeAC495271d0F'', ''DAI''),
     (''0xdAC17F958D2ee523a2206206994597C13D831ec7'', ''USDT'')]"

definition dexesToTry :: "string list" where
  "dexesToTry = [''uniswap_v3'', ''uniswap_v2'', ''sushiswap'']"

definition getDirectDexPools :: "Env \<Rightarrow> string \<Rightarrow> PoolResult list" where
  "getDirectDexPools env tokenAddress =
    deduplicateAndSort (parseFloat env)
      (concat (map (\<lambda>dexName.
         concat (map (\<lambda>(baseAddress, baseSymbol). getDexPrices env tokenAddress baseAddress dexName)
                     baseTokens))
         dexesToTry))"

subsection \<open>Indexed discovery\<close>

definition whitespace :: "char \<Rightarrow> bool" where
  "whitespace c \<longleftrightarrow> c \<in> set [CHR '' '', CHR 0x09, CHR 0x0A, CHR 0x0B, CHR 0x0C, CHR 0x0D]"

text \<open>
  \<open>replace(/\s+/g, '_')\<close>: every maximal run of white space becomes one underscore.  The flag
  says whether the character before was white space.
\<close>

fun replaceSpacesFrom :: "bool \<Rightarrow> string \<Rightarrow> string" where
  "replaceSpacesFrom inRun [] = []"
| "replaceSpacesFrom inRun (c # cs) =
     (if whitespace c
      then (if inRun then replaceSpacesFrom True cs else CHR ''_'' # replaceSpacesFrom True cs)
      else c # replaceSpacesFrom False cs)"

definition replaceSpaces :: "string \<Rightarrow> string" where
  "replaceSpaces s = replaceSpacesFrom False s"

definition supportedName :: "string \<Rightarrow> string option" where
  "supportedName normalizedName =
    (if str_includes normalizedName ''uniswap'' \<and> str_includes normalizedName ''v3''
       then Some ''uniswap_v3''
     else if str_includes normalizedName ''uniswap'' \<and> str_includes normalizedName ''v2''
       then Some ''uniswap_v2''
     else if str_includes normalizedName ''sushiswap'' then Some ''sushiswap''
     else if str_includes normalizedName ''pancakeswap'' \<and> str_includes normalizedName ''v3''
       then Some ''pancakeswap_v3''
     else if str_includes normalizedName ''pancakeswap'' \<and> str_includes normalizedName ''v2''
       then Some ''pancakeswap_v2''
     else None)"

definition mapMoralisDexId :: "string option \<Rightarrow> string" where
  "mapMoralisDexId exchangeName =
    (case exchangeName of
       None \<Rightarrow> ''unknown''
     | Some n \<Rightarrow>
         if n = [] then ''unknown''
         else (case supportedName (toLowerCase n) of
                 Some d \<Rightarrow> d
               | None \<Rightarrow> replaceSpaces (toLowerCase n)))"

text \<open>
  \<open>queryMoralisForPools\<close>: every failure ends in the empty list.  \<open>pairsByDex\<close> is a \<open>Map\<close>;
  setting a key it has keeps the key's place.
\<close>

definition pairStep :: "MoralisPair \<Rightarrow> (string \<times> MoralisPair) list \<Rightarrow> (string \<times> MoralisPair) list" where
  "pairStep p pairsByDex =
    (case exchange_name p of
       None \<Rightarrow> pairsByDex
     | Some n \<Rightarrow>
         if n = [] then pairsByDex
         else (let dexName = toLowerCase n;
                   existingPair = map_of pairsByDex dexName
               in if liquidity_usd p < 1000 then pairsByDex
                  else (case existingPair of
                          None \<Rightarrow> AList.update dexName p pairsByDex
                        | Some e \<Rightarrow>
                            if liquidity_usd p > liquidity_usd e
                            then AList.update dexName p pairsByDex
                            else pairsByDex)))"

definition queryMoralisForPools :: "Env \<Rightarrow> string \<Rightarrow> MoralisPair list" where
  "queryMoralisForPools env tokenAddress =
    (case moralisReply env tokenAddress of
       FetchThrows \<Rightarrow> []
     | NotOk \<Rightarrow> []
     | BadBody \<Rightarrow> []
     | Pairs allPairs \<Rightarrow> map snd (fold pairStep allPairs []))"

definition isSupported :: "MoralisPair \<Rightarrow> bool" where
  "isSupported pool =
    (case exchange_name pool of
       None \<Rightarrow> False
     | Some n \<Rightarrow> n \<noteq> [] \<and> supportedName (toLowerCase n) \<noteq> None)"

text \<open>
  The loop of \<open>getMoralisPools\<close> over the first ten supported pools, with the set of pool
  addresses already processed and the results so far.  \<open>Inl\<close> is an exception that leaves
  the method: an entry without its token list makes \<open>pool.pair.find\<close> throw.
\<close>

fun moralisLoop ::
  "Env \<Rightarrow> string \<Rightarrow> MoralisPair list \<Rightarrow> string list \<Rightarrow> PoolResult list
   \<Rightarrow> string + PoolResult list" where
  "moralisLoop env tokenAddress [] processedPools allResults = Inr allResults"
| "moralisLoop env tokenAddress (pool # rest) processedPools allResults =
     (if pair_address pool \<in> set processedPools
      then moralisLoop env tokenAddress rest processedPools allResults
      else (case pair pool of
              None \<Rightarrow> Inl ''TypeError''
            | Some tokens \<Rightarrow>
                (case (find (\<lambda>t. pair_token_type t = ''token0'') tokens,
                       find (\<lambda>t. pair_token_type t = ''token1'') tokens) of
                   (Some token0, Some token1) \<Rightarrow>
                     let isTargetBaseToken =
                           (toLowerCase (token_address token0) = toLowerCase tokenAddress);
                         otherTokenAddress = (if isTargetBaseToken then token_address token1
                                              else token_address token0);
                         otherTokenSymbol = (if isTargetBaseToken then token_symbol token1
                                             else token_symbol token0)
                     in (case getTokenPriceFromPool env tokenAddress (pair_address pool) of
                           Some priceResult \<Rightarrow>
                             moralisLoop env tokenAddress rest (set_add (pair_address pool) processedPools)
                               (allResults @
                                 [\<lparr>dex = mapMoralisDexId (exchange_name pool),
                                   poolAddress = pair_address pool,
                                   liquidity = numberToString env (liquidity_usd pool),
                                   priceInWei = quote_priceInWei priceResult,
                                   baseToken = otherTokenAddress,
                                   baseTokenSymbol = otherTokenSymbol, fee = None\<rparr>])
                         | None \<Rightarrow>
                             moralisLoop env tokenAddress rest (set_add (pair_address pool) processedPools)
                               allResults)
                 | _ \<Rightarrow> moralisLoop env tokenAddress rest (set_add (pair_address pool) processedPools)
                          allResults)))"

definition getMoralisPools :: "Env \<Rightarrow> string \<Rightarrow> string + PoolResult list" where
  "getMoralisPools env tokenAddress =
    (let allPools = queryMoralisForPools env tokenAddress
     in if length allPools = 0 then Inr []
        else (case moralisLoop env tokenAddress (take 10 (filter isSupported allPools)) [] [] of
                Inl e \<Rightarrow> Inl e
              | Inr allResults \<Rightarrow> Inr (deduplicateAndSort (parseFloat env) allResults)))"

subsection \<open>The aggregator\<close>

definition getAllAvailablePrices :: "Env \<Rightarrow> string \<Rightarrow> PoolResult list" where
  "getAllAvailablePrices env tokenAddress =
    (let allResults = (case getMoralisPools env tokenAddress of Inl e \<Rightarrow> [] | Inr rs \<Rightarrow> rs)
     in if length allResults = 0 then getDirectDexPools env tokenAddress else allResults)"

definition getAbsoluteBestPrice :: "Env \<Rightarrow> string \<Rightarrow> PoolResult option" where
  "getAbsoluteBestPrice env tokenAddress =
    (case getAllAvailablePrices env tokenAddress of [] \<Rightarrow> None | best # _ \<Rightarrow> Some best)"

section \<open>Example states\<close>

text \<open>
  Two sessions with disjoint subscriptions: \<open>client_1\<close> follows token \<open>0xaa\<close>, \<open>client_2\<close>
  follows token \<open>0xbb\<close>.  Both tokens are initialized; \<open>0xaa\<close> holds the price a refresh at
  clock reading 1000 stored for one SushiSwap pool, \<open>0xbb\<close> holds no price.
\<close>

definition sushi_pool :: "string \<Rightarrow> PoolResult" where
  "sushi_pool price =
    \<lparr>dex = ''sushiswap'', poolAddress = ''0xp1'', liquidity = ''90'', priceInWei = price,
     baseToken = ''0xC02aaA39b223FE8D0A0e5C4F27eAD9083C756Cc2'', baseTokenSymbol = ''WETH'',
     fee = None\<rparr>"

definition two_sessions :: PricingDurableObject where
  "two_sessions =
    \<lparr>sessions =
       [''client_1'' \<mapsto> \<lparr>session_id = ''client_1'',
           webSocket = \<lparr>readyStateOpen = True, sendThrows = False\<rparr>,
           subscribedTokens = [''0xaa''], lastActivity = 0\<rparr>,
        ''client_2'' \<mapsto> \<lparr>session_id = ''client_2'',
           webSocket = \<lparr>readyStateOpen = True, sendThrows = False\<rparr>,
           subscribedTokens = [''0xbb''], lastActivity = 0\<rparr>],
     hasPriceService = True,
     tokenRegistry =
       [''0xaa'' \<mapsto> (placeholder ''0xaa'')\<lparr>dexPrices := populate (\<lambda>i. 1000) 0 [sushi_pool ''5''] [],
            lastUpdate := 1000, initialized := True\<rparr>,
        ''0xbb'' \<mapsto> (placeholder ''0xbb'')\<lparr>lastUpdate := 1000, initialized := True\<rparr>],
     tokenSubscribers = [(''0xaa'', [''client_1'']), (''0xbb'', [''client_2''])]\<rparr>"

text \<open>
  What the price service answers in the next pass: for \<open>0xaa\<close> the same pool at the given
  price, for every other token no pool.
\<close>

definition sushi_answers :: "string \<Rightarrow> string \<Rightarrow> string + PoolResult list" where
  "sushi_answers price tokenAddress =
    (if tokenAddress = ''0xaa'' then Inr [sushi_pool price] else Inr [])"

text \<open>
  Three sessions with overlapping subscriptions: \<open>client_1\<close> follows both tokens, \<open>client_2\<close>
  and \<open>client_3\<close> follow \<open>0xbb\<close>, and the socket of \<open>client_3\<close> throws when written to.
\<close>

definition three_sessions :: PricingDurableObject where
  "three_sessions =
    two_sessions
      \<lparr>sessions :=
        [''client_1'' \<mapsto> \<lparr>session_id = ''client_1'',
            webSocket = \<lparr>readyStateOpen = True, sendThrows = False\<rparr>,
            subscribedTokens = [''0xaa'', ''0xbb''], lastActivity = 0\<rparr>,
         ''client_2'' \<mapsto> \<lparr>session_id = ''client_2'',
            webSocket = \<lparr>readyStateOpen = True, sendThrows = False\<rparr>,
            subscribedTokens = [''0xbb''], lastActivity = 0\<rparr>,
         ''client_3'' \<mapsto> \<lparr>session_id = ''client_3'',
            webSocket = \<lparr>readyStateOpen = True, sendThrows = True\<rparr>,
            subscribedTokens = [''0xbb''], lastActivity = 0\<rparr>],
       tokenSubscribers :=
        [(''0xaa'', [''client_1'']), (''0xbb'', [''client_1'', ''client_3'', ''client_2''])]\<rparr>"

text \<open>
  One session that has just subscribed to a token the registry did not know: the record is
  the placeholder, not yet initialized.
\<close>

definition new_subscription :: PricingDurableObject where
  "new_subscription =
    \<lparr>sessions =
       [''client_1'' \<mapsto> \<lparr>session_id = ''client_1'',
           webSocket = \<lparr>readyStateOpen = True, sendThrows = False\<rparr>,
           subscribedTokens = [''0xaa''], lastActivity = 0\<rparr>],
     hasPriceService = True,
     tokenRegistry = [''0xaa'' \<mapsto> placeholder ''0xaa''],
     tokenSubscribers = [(''0xaa'', [''client_1''])]\<rparr>"

text \<open>
  A small market for one snapshot of the chain: a constant-product UNI/WETH pair on
  SushiSwap (\<open>0xpoolA\<close>), a constant-product UNI/USDC pair on Uniswap V2 (\<open>0xpoolB\<close>) and the
  concentrated-liquidity USDC/WETH pool of the repository's test (\<open>0xpoolC\<close>, fee tier 3000).
  The arguments are the index's reply, the reserves of the two pairs, \<open>sqrtPriceX96\<close> and
  liquidity of the pool, and the square roots \<open>Math.sqrt\<close> finds.  In this market
  \<open>parseFloat\<close> reads a decimal integer and \<open>toString\<close> writes the whole part of a number.
\<close>

definition UNI :: string where "UNI = ''0x1f9840a85d5aF5bf1D1762F925BDADdC4201F984''"
definition USDC :: string where "USDC = ''0xA0b86991c6218b36c1d19D4a2e9Eb0cE3606eB48''"

definition digit_value :: "char \<Rightarrow> nat" where
  "digit_value c =
    (case map_of (zip ''0123456789'' [0, 1, 2, 3, 4, 5, 6, 7, 8, 9]) c of None \<Rightarrow> 0 | Some d \<Rightarrow> d)"

definition read_nat :: "string \<Rightarrow> nat" where
  "read_nat s = fold (\<lambda>c n. 10 * n + digit_value c) s 0"

definition market ::
  "MoralisReply \<Rightarrow> (nat \<times> nat) option \<Rightarrow> (nat \<times> nat) option \<Rightarrow> (nat \<times> nat) option
   \<Rightarrow> (nat \<times> nat) list \<Rightarrow> Env" where
  "market reply reservesA reservesB slot0C roots =
    \<lparr>moralisReply = (\<lambda>tokenAddress. reply),
     call_token0 = map_of [(''0xpoolA'', UNI), (''0xpoolB'', UNI), (''0xpoolC'', USDC)],
     call_token1 = map_of [(''0xpoolA'', WETH_ADDRESS), (''0xpoolB'', USDC), (''0xpoolC'', WETH_ADDRESS)],
     call_decimals = map_of [(UNI, 18), (WETH_ADDRESS, 18), (USDC, 6)],
     call_symbol = map_of [(UNI, ''UNI''), (WETH_ADDRESS, ''WETH''), (USDC, ''USDC'')],
     call_slot0 = (\<lambda>p. if p = ''0xpoolC'' then map_option fst slot0C else None),
     call_getReserves = (\<lambda>p. if p = ''0xpoolA'' then reservesA
                             else if p = ''0xpoolB'' then reservesB else None),
     call_liquidity = (\<lambda>p. if p = ''0xpoolC'' then map_option snd slot0C else None),
     call_getPool = (\<lambda>factory tokenA tokenB feeTier.
        if factory = UNISWAP_V3_FACTORY \<and> feeTier = 3000
           \<and> (tokenA = USDC \<and> tokenB = WETH_ADDRESS \<or> tokenA = WETH_ADDRESS \<and> tokenB = USDC)
        then Some ''0xpoolC'' else Some ZeroAddress),
     call_getPair = (\<lambda>factory tokenA tokenB.
        if factory = SUSHISWAP_FACTORY \<and> tokenA = UNI \<and> tokenB = WETH_ADDRESS then Some ''0xpoolA''
        else if factory = UNISWAP_V2_FACTORY \<and> tokenA = UNI \<and> tokenB = USDC then Some ''0xpoolB''
        else Some ZeroAddress),
     parseFloat = (\<lambda>s. of_nat (read_nat s)),
     numberToString = (\<lambda>q. show_nat (nat \<lfloor>q\<rfloor>)),
     sqrtToBigInt = map_of roots\<rparr>"

text \<open>
  The rate the interface documents for \<open>priceInWei\<close>, "how much [reference] wei needed for 1
  full unit of token", in a constant-product pool: one smallest unit of the target is worth
  \<open>reserveReference / reserveTarget\<close> smallest units of the reference, and one whole target
  token is \<open>10 ^ decimalsTarget\<close> smallest units.  In a concentrated-liquidity pool the
  price of one smallest unit of \<open>token0\<close> is \<open>sqrtPriceX96\<^sup>2 / 2\<^sup>1\<^sup>9\<^sup>2\<close> smallest units of \<open>token1\<close>.
\<close>

definition referenceUnitsPerWholeToken :: "nat \<Rightarrow> nat \<Rightarrow> nat \<Rightarrow> nat" where
  "referenceUnitsPerWholeToken reserveTarget reserveReference decimalsTarget =
    (reserveReference * 10 ^ decimalsTarget) div reserveTarget"

definition token0UnitsPerWholeToken1 :: "nat \<Rightarrow> nat \<Rightarrow> nat" where
  "token0UnitsPerWholeToken1 sqrtPriceX96 decimals1 =
    (2 ^ 192 * 10 ^ decimals1) div (sqrtPriceX96 * sqrtPriceX96)"







section \<open>The registry invariant\<close>

lemma set_set_add [simp]: "set (set_add x xs) = insert x (set xs)"
  by (auto simp: set_add_def)

lemma set_set_delete [simp]: "set (set_delete x xs) = set xs - {x}"
  by (auto simp: set_delete_def)

lemma subscribe_no_session:
  "sessions st c = None \<Longrightarrow> subscribeClientToToken c t st = st"
  by (simp add: subscribeClientToToken_def)

lemma subscribe_sessions:
  "sessions st c = Some s \<Longrightarrow>
   sessions (subscribeClientToToken c t st)
     = (sessions st)(c \<mapsto> s\<lparr>subscribedTokens := set_add t (subscribedTokens s)\<rparr>)"
  by (simp add: subscribeClientToToken_def Let_def)

lemma subscribe_subscribers:
  "sessions st c = Some s \<Longrightarrow>
   map_of (tokenSubscribers (subscribeClientToToken c t st))
     = (map_of (tokenSubscribers st))
         (t \<mapsto> set_add c (case map_of (tokenSubscribers st) t of None \<Rightarrow> [] | Some cs \<Rightarrow> cs))"
  by (cases "map_of (tokenSubscribers st) t")
     (simp_all add: subscribeClientToToken_def Let_def update_conv')

lemma subscribe_consistent:
  assumes "registry_consistent st"
  shows "registry_consistent (subscribeClientToToken c t st)"
proof (cases "sessions st c")
  case None
  with assms show ?thesis by (simp add: subscribe_no_session)
next
  case (Some s)
  show ?thesis
    unfolding registry_consistent_def subscribe_sessions [OF Some] subscribe_subscribers [OF Some]
  proof (intro allI)
    fix c' t'
    from assms have inv: "(\<exists>session. sessions st c' = Some session \<and> t' \<in> set (subscribedTokens session))
       \<longleftrightarrow> (\<exists>cs. map_of (tokenSubscribers st) t' = Some cs \<and> c' \<in> set cs)"
      unfolding registry_consistent_def by blast
    from assms have inv2: "(\<exists>session. sessions st c' = Some session \<and> t \<in> set (subscribedTokens session))
       \<longleftrightarrow> (\<exists>cs. map_of (tokenSubscribers st) t = Some cs \<and> c' \<in> set cs)"
      unfolding registry_consistent_def by blast
    show "(\<exists>session. ((sessions st)(c \<mapsto> s\<lparr>subscribedTokens := set_add t (subscribedTokens s)\<rparr>)) c' = Some session
              \<and> t' \<in> set (subscribedTokens session))
       \<longleftrightarrow> (\<exists>cs. ((map_of (tokenSubscribers st))
         (t \<mapsto> set_add c (case map_of (tokenSubscribers st) t of None \<Rightarrow> [] | Some cs \<Rightarrow> cs))) t' = Some cs \<and> c' \<in> set cs)"
      using inv inv2 Some by (cases "c' = c"; cases "t' = t") (auto split: option.splits)
  qed
qed

lemma unsubscribe_no_session:
  "sessions st c = None \<Longrightarrow> unsubscribeClientFromToken c t st = st"
  by (simp add: unsubscribeClientFromToken_def)

lemma unsubscribe_sessions:
  "sessions st c = Some s \<Longrightarrow>
   sessions (unsubscribeClientFromToken c t st)
     = (sessions st)(c \<mapsto> s\<lparr>subscribedTokens := set_delete t (subscribedTokens s)\<rparr>)"
  by (simp add: unsubscribeClientFromToken_def Let_def)

lemma unsubscribe_subscribers:
  "sessions st c = Some s \<Longrightarrow>
   map_of (tokenSubscribers (unsubscribeClientFromToken c t st))
     = (case map_of (tokenSubscribers st) t of
          None \<Rightarrow> map_of (tokenSubscribers st)
        | Some cs \<Rightarrow> if set_delete c cs = [] then (map_of (tokenSubscribers st))(t := None)
                     else (map_of (tokenSubscribers st))(t \<mapsto> set_delete c cs))"
  by (cases "map_of (tokenSubscribers st) t")
     (simp_all add: unsubscribeClientFromToken_def Let_def update_conv' delete_conv')

lemma unsubscribe_consistent:
  assumes "registry_consistent st"
  shows "registry_consistent (unsubscribeClientFromToken c t st)"
proof (cases "sessions st c")
  case None
  with assms show ?thesis by (simp add: unsubscribe_no_session)
next
  case (Some s)
  show ?thesis
    unfolding registry_consistent_def unsubscribe_sessions [OF Some] unsubscribe_subscribers [OF Some]
  proof (intro allI)
    fix c' t'
    from assms have inv: "(\<exists>session. sessions st c' = Some session \<and> t' \<in> set (subscribedTokens session))
       \<longleftrightarrow> (\<exists>cs. map_of (tokenSubscribers st) t' = Some cs \<and> c' \<in> set cs)"
      unfolding registry_consistent_def by blast
    have emp: "\<And>cs. set_delete c cs = [] \<Longrightarrow> set cs \<subseteq> {c}"
      by (metis Diff_eq_empty_iff set_set_delete set_empty)
    show "(\<exists>session. ((sessions st)(c \<mapsto> s\<lparr>subscribedTokens := set_delete t (subscribedTokens s)\<rparr>)) c' = Some session
              \<and> t' \<in> set (subscribedTokens session))
       \<longleftrightarrow> (\<exists>cs. (case map_of (tokenSubscribers st) t of
          None \<Rightarrow> map_of (tokenSubscribers st)
        | Some cs \<Rightarrow> if set_delete c cs = [] then (map_of (tokenSubscribers st))(t := None)
                     else (map_of (tokenSubscribers st))(t \<mapsto> set_delete c cs)) t' = Some cs \<and> c' \<in> set cs)"
      using inv Some by (cases "c' = c"; cases "t' = t") (auto split: option.splits dest: emp)
  qed
qed

lemma fold_unsubscribe_consistent:
  "registry_consistent st \<Longrightarrow> registry_consistent (fold (unsubscribeClientFromToken c) ts st)"
  by (induction ts arbitrary: st) (simp_all add: unsubscribe_consistent)

lemma fold_unsubscribe_sessions:
  "sessions st c = Some s \<Longrightarrow>
   sessions (fold (unsubscribeClientFromToken c) ts st)
     = (sessions st)(c \<mapsto> s\<lparr>subscribedTokens := filter (\<lambda>t. t \<notin> set ts) (subscribedTokens s)\<rparr>)"
proof (induction ts arbitrary: st s)
  case Nil
  then show ?case by (simp add: map_upd_triv)
next
  case (Cons t ts)
  let ?s' = "s\<lparr>subscribedTokens := set_delete t (subscribedTokens s)\<rparr>"
  have "sessions (unsubscribeClientFromToken c t st) c = Some ?s'"
    using Cons.prems by (simp add: unsubscribe_sessions)
  from Cons.IH [OF this]
  have step: "sessions (fold (unsubscribeClientFromToken c) ts (unsubscribeClientFromToken c t st))
     = (sessions (unsubscribeClientFromToken c t st))
         (c \<mapsto> ?s'\<lparr>subscribedTokens := filter (\<lambda>t. t \<notin> set ts) (subscribedTokens ?s')\<rparr>)" .
  have "filter (\<lambda>u. u \<notin> set ts) (set_delete t xs) = filter (\<lambda>u. u \<notin> set (t # ts)) xs" for xs
    by (induction xs) (auto simp: set_delete_def)
  then have flt: "filter (\<lambda>u. u \<notin> set ts) (set_delete t (subscribedTokens s))
     = filter (\<lambda>u. u \<notin> set (t # ts)) (subscribedTokens s)" .
  show ?case
    using Cons.prems by (simp add: step unsubscribe_sessions flt del: set_simps)
qed

lemma removeClient_consistent:
  assumes "registry_consistent st"
  shows "registry_consistent (removeClient c st)"
proof (cases "sessions st c")
  case None
  with assms show ?thesis by (simp add: removeClient_def)
next
  case (Some s)
  let ?st' = "fold (unsubscribeClientFromToken c) (subscribedTokens s) st"
  have inv': "registry_consistent ?st'"
    using assms by (rule fold_unsubscribe_consistent)
  have sess': "sessions ?st' = (sessions st)(c \<mapsto> s\<lparr>subscribedTokens := []\<rparr>)"
    using fold_unsubscribe_sessions [OF Some, of "subscribedTokens s"] by simp
  have no_c: "\<And>t cs. map_of (tokenSubscribers ?st') t = Some cs \<Longrightarrow> c \<notin> set cs"
  proof
    fix t cs assume "map_of (tokenSubscribers ?st') t = Some cs" "c \<in> set cs"
    then have "\<exists>session. sessions ?st' c = Some session \<and> t \<in> set (subscribedTokens session)"
      using inv' unfolding registry_consistent_def by blast
    then show False by (simp add: sess')
  qed
  have eq: "removeClient c st = ?st'\<lparr>sessions := (sessions ?st')(c := None)\<rparr>"
    using Some by (simp add: removeClient_def Let_def)
  show ?thesis
    unfolding eq registry_consistent_def
  proof (intro allI)
    fix c' t'
    from inv' have inv: "(\<exists>session. sessions ?st' c' = Some session \<and> t' \<in> set (subscribedTokens session))
       \<longleftrightarrow> (\<exists>cs. map_of (tokenSubscribers ?st') t' = Some cs \<and> c' \<in> set cs)"
      unfolding registry_consistent_def by blast
    show "(\<exists>session. sessions (?st'\<lparr>sessions := (sessions ?st')(c := None)\<rparr>) c' = Some session
              \<and> t' \<in> set (subscribedTokens session))
       \<longleftrightarrow> (\<exists>cs. map_of (tokenSubscribers (?st'\<lparr>sessions := (sessions ?st')(c := None)\<rparr>)) t' = Some cs
              \<and> c' \<in> set cs)"
    proof (cases "c' = c")
      case True
      then show ?thesis using no_c by auto
    next
      case False
      then show ?thesis using inv by simp
    qed
  qed
qed

lemma fold_subscribe_consistent:
  "registry_consistent st \<Longrightarrow> registry_consistent (fold (subscribeClientToToken c) ts st)"
  by (induction ts arbitrary: st) (simp_all add: subscribe_consistent)

lemma connect_consistent:
  assumes "registry_consistent st" and fresh: "sessions st c = None"
  shows "registry_consistent (connectClient c ws now ts st)"
proof -
  let ?st0 = "st\<lparr>sessions := (sessions st)(c \<mapsto> newSession c ws now)\<rparr>"
  have no_c: "\<And>t cs. map_of (tokenSubscribers st) t = Some cs \<Longrightarrow> c \<notin> set cs"
  proof
    fix t cs assume "map_of (tokenSubscribers st) t = Some cs" "c \<in> set cs"
    then have "\<exists>session. sessions st c = Some session \<and> t \<in> set (subscribedTokens session)"
      using assms(1) unfolding registry_consistent_def by blast
    then show False by (simp add: fresh)
  qed
  have "registry_consistent ?st0"
    unfolding registry_consistent_def
  proof (intro allI)
    fix c' t'
    from assms(1) have inv: "(\<exists>session. sessions st c' = Some session \<and> t' \<in> set (subscribedTokens session))
       \<longleftrightarrow> (\<exists>cs. map_of (tokenSubscribers st) t' = Some cs \<and> c' \<in> set cs)"
      unfolding registry_consistent_def by blast
    show "(\<exists>session. sessions ?st0 c' = Some session \<and> t' \<in> set (subscribedTokens session))
       \<longleftrightarrow> (\<exists>cs. map_of (tokenSubscribers ?st0) t' = Some cs \<and> c' \<in> set cs)"
    proof (cases "c' = c")
      case True
      then show ?thesis using no_c by (auto simp: newSession_def)
    next
      case False
      then show ?thesis using inv by simp
    qed
  qed
  then show ?thesis
    unfolding connectClient_def by (rule fold_subscribe_consistent)
qed

lemma initial_consistent: "registry_consistent (initial_state svc featured)"
  by (auto simp: registry_consistent_def initial_state_def FEATURED_TOKENS_def)

text \<open>
  Claim C6.  In every state reachable from the constructor's state by connections,
  subscriptions, unsubscriptions and session removals, the two maps agree: a token address
  is in a session's \<open>subscribedTokens\<close> exactly when the session's identifier is in the
  token's set in \<open>tokenSubscribers\<close>.
\<close>

theorem registry_consistent_reachable:
  "reachable st \<Longrightarrow> registry_consistent st"
proof (induction rule: reachable.induct)
  case (r_init svc featured)
  show ?case by (rule initial_consistent)
next
  case (r_connect st clientId ws now initialTokens)
  then show ?case by (simp add: connect_consistent)
next
  case (r_subscribe st clientId tokenAddress)
  then show ?case by (simp add: subscribe_consistent)
next
  case (r_unsubscribe st clientId tokenAddress)
  then show ?case by (simp add: unsubscribe_consistent)
next
  case (r_remove st clientId)
  then show ?case by (simp add: removeClient_consistent)
qed

theorem registry_consistent_reachable_witness:
  "reachable (unsubscribeClientFromToken ''client_1'' ''0xaa''
      (subscribeClientToToken ''client_1'' ''0xbb''
        (connectClient ''client_1'' \<lparr>readyStateOpen = True, sendThrows = False\<rparr> 7 [''0xaa'']
          (initial_state True featured_written))))
   \<and> registry_consistent (unsubscribeClientFromToken ''client_1'' ''0xaa''
      (subscribeClientToToken ''client_1'' ''0xbb''
        (connectClient ''client_1'' \<lparr>readyStateOpen = True, sendThrows = False\<rparr> 7 [''0xaa'']
          (initial_state True featured_written))))"
proof -
  have fresh: "sessions (initial_state True featured_written) ''client_1'' = None"
    by (simp add: initial_state_def)
  have r: "reachable (unsubscribeClientFromToken ''client_1'' ''0xaa''
      (subscribeClientToToken ''client_1'' ''0xbb''
        (connectClient ''client_1'' \<lparr>readyStateOpen = True, sendThrows = False\<rparr> 7 [''0xaa'']
          (initial_state True featured_written))))"
    by (intro r_unsubscribe r_subscribe r_connect r_init fresh)
  from r registry_consistent_reachable [OF r] show ?thesis by simp
qed

section \<open>Change detection\<close>

lemma info_json_inject: "info_json a = info_json b \<Longrightarrow> a = b"
  by (cases a; cases b) (auto simp: info_json_def split: option.splits)

lemma JSON_stringify_inject: "JSON_stringify a = JSON_stringify b \<Longrightarrow> a = b"
proof -
  assume "JSON_stringify a = JSON_stringify b"
  then have "map (\<lambda>(k, e). (k, info_json e)) a = map (\<lambda>(k, e). (k, info_json e)) b"
    by (simp add: JSON_stringify_def)
  moreover have "inj (\<lambda>(k :: string, e). (k, info_json e))"
    by (auto simp: inj_on_def dest: info_json_inject)
  ultimately show "a = b"
    by simp
qed

text \<open>
  Claim C10.  A refresh that fails with an error returns \<open>False\<close> (not changed), sets the
  token's \<open>lastUpdate\<close> to a fresh clock reading and its \<open>initialized\<close> flag to true.  If the
  price map was empty, it becomes the single entry \<open>error\<close>, which carries the error text; if
  it held entries, they stay as they were.
\<close>

theorem failed_refresh_marks_or_keeps:
  assumes svc: "hasPriceService st" and reg: "tokenRegistry st t = Some ti"
  shows "snd (updateSingleTokenPrice clock (Inl err) t st) = False
       \<and> (\<exists>ti'. tokenRegistry (fst (updateSingleTokenPrice clock (Inl err) t st)) t = Some ti'
             \<and> initialized ti'
             \<and> lastUpdate ti' = clock (if dexPrices ti = [] then 1 else 0)
             \<and> (dexPrices ti = [] \<longrightarrow>
                  (\<exists>e. dexPrices ti' = [(''error'', e)] \<and> info_error e \<noteq> None
                        \<and> info_priceInWei e = ''0'' \<and> info_lastUpdate e = clock 0))
             \<and> (dexPrices ti \<noteq> [] \<longrightarrow> dexPrices ti' = dexPrices ti))"
proof -
  let ?prices = "if dexPrices ti = [] then [(''error'', error_entry err (clock 0))] else dexPrices ti"
  let ?ti' = "ti\<lparr>dexPrices := ?prices, lastUpdate := clock (if dexPrices ti = [] then 1 else 0),
                 initialized := True\<rparr>"
  have res: "updateSingleTokenPrice clock (Inl err) t st
      = (st\<lparr>tokenRegistry := (tokenRegistry st)(t \<mapsto> ?ti')\<rparr>, False)"
    using assms by (simp add: updateSingleTokenPrice_def Let_def)
  have "tokenRegistry (fst (updateSingleTokenPrice clock (Inl err) t st)) t = Some ?ti'"
    by (simp add: res)
  moreover have "initialized ?ti'" by simp
  moreover have "lastUpdate ?ti' = clock (if dexPrices ti = [] then 1 else 0)" by simp
  moreover have "dexPrices ti = [] \<longrightarrow>
       (\<exists>e. dexPrices ?ti' = [(''error'', e)] \<and> info_error e \<noteq> None
             \<and> info_priceInWei e = ''0'' \<and> info_lastUpdate e = clock 0)"
    by (simp add: error_entry_def)
  moreover have "dexPrices ti \<noteq> [] \<longrightarrow> dexPrices ?ti' = dexPrices ti" by simp
  ultimately show ?thesis
    unfolding res snd_conv by blast
qed

theorem failed_refresh_marks_or_keeps_witness:
  "(snd (updateSingleTokenPrice (\<lambda>i. 1000 + i) (Inl ''timeout'') ''0xaa''
         (subscribeClientToToken ''client_1'' ''0xaa''
           (connectClient ''client_1'' \<lparr>readyStateOpen = True, sendThrows = False\<rparr> 7 []
             (initial_state True featured_written)))) = False
   \<and> (\<exists>ti'. tokenRegistry (fst (updateSingleTokenPrice (\<lambda>i. 1000 + i) (Inl ''timeout'') ''0xaa''
         (subscribeClientToToken ''client_1'' ''0xaa''
           (connectClient ''client_1'' \<lparr>readyStateOpen = True, sendThrows = False\<rparr> 7 []
             (initial_state True featured_written))))) ''0xaa'' = Some ti'
         \<and> initialized ti' \<and> lastUpdate ti' = 1001
         \<and> (\<exists>e. dexPrices ti' = [(''error'', e)] \<and> info_error e \<noteq> None
                  \<and> info_priceInWei e = ''0'' \<and> info_lastUpdate e = 1000)))
   \<and> (\<exists>ti'. tokenRegistry (fst (updateSingleTokenPrice (\<lambda>i. 2000 + i) (Inl ''timeout'') ''0xaa''
         \<lparr>sessions = Map.empty, hasPriceService = True,
          tokenRegistry = [''0xaa'' \<mapsto> (placeholder ''0xaa'')
             \<lparr>dexPrices := [(''sushiswap'',
                 \<lparr>info_priceInWei = ''5'', info_poolAddress = ''0xp1'', info_liquidity = ''90'',
                  info_fee = None, info_error = None, info_lastUpdate = 1000\<rparr>)],
               initialized := True\<rparr>],
          tokenSubscribers = [(''0xaa'', [])]\<rparr>)) ''0xaa'' = Some ti'
         \<and> lastUpdate ti' = 2000
         \<and> dexPrices ti' = [(''sushiswap'',
                 \<lparr>info_priceInWei = ''5'', info_poolAddress = ''0xp1'', info_liquidity = ''90'',
                  info_fee = None, info_error = None, info_lastUpdate = 1000\<rparr>)])"
proof -
  let ?st = "subscribeClientToToken ''client_1'' ''0xaa''
           (connectClient ''client_1'' \<lparr>readyStateOpen = True, sendThrows = False\<rparr> 7 []
             (initial_state True featured_written))"
  have svc: "hasPriceService ?st"
    by (simp add: subscribeClientToToken_def connectClient_def initial_state_def Let_def)
  have reg: "tokenRegistry ?st ''0xaa'' = Some (placeholder ''0xaa'')"
    by (simp add: subscribeClientToToken_def connectClient_def initial_state_def Let_def
        FEATURED_TOKENS_def)
  have emp: "dexPrices (placeholder ''0xaa'') = []"
    by (simp add: placeholder_def)
  let ?ti = "(placeholder ''0xaa'')
             \<lparr>dexPrices := [(''sushiswap'',
                 \<lparr>info_priceInWei = ''5'', info_poolAddress = ''0xp1'', info_liquidity = ''90'',
                  info_fee = None, info_error = None, info_lastUpdate = 1000\<rparr>)],
               initialized := True\<rparr>"
  let ?st2 = "\<lparr>sessions = Map.empty, hasPriceService = True,
          tokenRegistry = [''0xaa'' \<mapsto> ?ti], tokenSubscribers = [(''0xaa'', [])]\<rparr>"
  have svc2: "hasPriceService ?st2" by simp
  have reg2: "tokenRegistry ?st2 ''0xaa'' = Some ?ti" by simp
  from failed_refresh_marks_or_keeps [OF svc reg, of "\<lambda>i. 1000 + i" "''timeout''"]
  have first: "snd (updateSingleTokenPrice (\<lambda>i. 1000 + i) (Inl ''timeout'') ''0xaa'' ?st) = False
   \<and> (\<exists>ti'. tokenRegistry (fst (updateSingleTokenPrice (\<lambda>i. 1000 + i) (Inl ''timeout'') ''0xaa'' ?st))
            ''0xaa'' = Some ti'
         \<and> initialized ti' \<and> lastUpdate ti' = 1001
         \<and> (\<exists>e. dexPrices ti' = [(''error'', e)] \<and> info_error e \<noteq> None
                  \<and> info_priceInWei e = ''0'' \<and> info_lastUpdate e = 1000))"
    by (simp add: emp)
  from failed_refresh_marks_or_keeps [OF svc2 reg2, of "\<lambda>i. 2000 + i" "''timeout''"]
  have second: "\<exists>ti'. tokenRegistry (fst (updateSingleTokenPrice (\<lambda>i. 2000 + i) (Inl ''timeout'') ''0xaa'' ?st2))
            ''0xaa'' = Some ti'
         \<and> lastUpdate ti' = 2000
         \<and> dexPrices ti' = [(''sushiswap'',
                 \<lparr>info_priceInWei = ''5'', info_poolAddress = ''0xp1'', info_liquidity = ''90'',
                  info_fee = None, info_error = None, info_lastUpdate = 1000\<rparr>)]"
    by auto
  from first second show ?thesis by blast
qed

section \<open>Fan-out\<close>

lemma updateSingle_frame:
  "sessions (fst (updateSingleTokenPrice clock fetched t st)) = sessions st
   \<and> tokenSubscribers (fst (updateSingleTokenPrice clock fetched t st)) = tokenSubscribers st"
  by (simp add: updateSingleTokenPrice_def Let_def split: option.splits sum.splits)

lemma updateTokens_frame:
  "sessions (fst (updateTokens fetch clock ts st)) = sessions st
   \<and> tokenSubscribers (fst (updateTokens fetch clock ts st)) = tokenSubscribers st"
proof (induction ts arbitrary: st)
  case Nil
  show ?case by simp
next
  case (Cons t ts)
  show ?case
    using Cons.IH [of "fst (updateSingleTokenPrice (clock t) (fetch t) t st)"]
      updateSingle_frame [of "clock t" "fetch t" t st]
    by (simp add: split_beta Let_def)
qed

lemma unsubscribe_frame:
  "tokenRegistry (unsubscribeClientFromToken c t st) = tokenRegistry st
   \<and> (c' \<noteq> c \<longrightarrow> sessions (unsubscribeClientFromToken c t st) c' = sessions st c')"
  by (simp add: unsubscribeClientFromToken_def Let_def split: option.splits)

lemma fold_unsubscribe_frame:
  "tokenRegistry (fold (unsubscribeClientFromToken c) ts st) = tokenRegistry st
   \<and> (c' \<noteq> c \<longrightarrow> sessions (fold (unsubscribeClientFromToken c) ts st) c' = sessions st c')"
  by (induction ts arbitrary: st) (simp_all add: unsubscribe_frame)

lemma removeClient_registry: "tokenRegistry (removeClient c st) = tokenRegistry st"
  by (simp add: removeClient_def Let_def fold_unsubscribe_frame split: option.splits)

lemma removeClient_sessions:
  "sessions (removeClient c st) c' = (if c' = c then None else sessions st c')"
  by (simp add: removeClient_def Let_def fold_unsubscribe_frame split: option.splits)

lemma subscribedData_removeClient:
  "subscribedData (removeClient c st) s = subscribedData st s"
  by (simp add: subscribedData_def removeClient_registry)

lemma notifyLoop_sent:
  "snd (notifyLoop sendTime cs st)
     = map (\<lambda>c. \<lparr>recipient = c, data = subscribedData st (the (sessions st c)),
                  timestamp = sendTime c\<rparr>)
         (filter (\<lambda>c. \<exists>s. sessions st c = Some s \<and> readyStateOpen (webSocket s)
                         \<and> \<not> sendThrows (webSocket s)) cs)"
proof (induction cs arbitrary: st)
  case Nil
  show ?case by simp
next
  case (Cons c cs)
  show ?case
  proof (cases "sessions st c")
    case None
    then show ?thesis using Cons.IH [of st] by simp
  next
    case (Some s)
    show ?thesis
    proof (cases "readyStateOpen (webSocket s) \<and> sendThrows (webSocket s)")
      case True
      have flt: "filter (\<lambda>c'. \<exists>s. sessions (removeClient c st) c' = Some s \<and> readyStateOpen (webSocket s)
                         \<and> \<not> sendThrows (webSocket s)) cs
          = filter (\<lambda>c'. \<exists>s. sessions st c' = Some s \<and> readyStateOpen (webSocket s)
                         \<and> \<not> sendThrows (webSocket s)) cs"
        using Some True by (intro filter_cong) (auto simp: removeClient_sessions)
      have "snd (notifyLoop sendTime (c # cs) st) = snd (notifyLoop sendTime cs (removeClient c st))"
        using Some True by simp
      also have "\<dots> = map (\<lambda>c'. \<lparr>recipient = c', data = subscribedData st (the (sessions (removeClient c st) c')),
                  timestamp = sendTime c'\<rparr>)
         (filter (\<lambda>c'. \<exists>s. sessions st c' = Some s \<and> readyStateOpen (webSocket s)
                         \<and> \<not> sendThrows (webSocket s)) cs)"
        by (simp add: Cons.IH [of "removeClient c st"] flt subscribedData_removeClient)
      also have "\<dots> = map (\<lambda>c'. \<lparr>recipient = c', data = subscribedData st (the (sessions st c')),
                  timestamp = sendTime c'\<rparr>)
         (filter (\<lambda>c'. \<exists>s. sessions st c' = Some s \<and> readyStateOpen (webSocket s)
                         \<and> \<not> sendThrows (webSocket s)) cs)"
        using Some True by (intro map_cong) (auto simp: removeClient_sessions)
      finally show ?thesis using Some True by simp
    next
      case False
      then show ?thesis using Some Cons.IH [of st] by (auto simp: split_beta)
    qed
  qed
qed

lemmas example_defs = two_sessions_def sushi_answers_def sushi_pool_def placeholder_def
  updateSingleTokenPrice_def updateAllActivePrices_def notifyAllClients_def allClientIds_def
  set_add_def JSON_stringify_def info_json_def Let_def


lemma set_fold_set_add: "set (fold set_add xs acc) = set xs \<union> set acc"
  by (induction xs arbitrary: acc) auto

lemma set_allClientIds:
  "set (allClientIds st) = {c. \<exists>t cs. (t, cs) \<in> set (tokenSubscribers st) \<and> c \<in> set cs}"
  by (force simp: allClientIds_def set_fold_set_add)

lemma distinct_fold_set_add: "distinct acc \<Longrightarrow> distinct (fold set_add xs acc)"
  by (induction xs arbitrary: acc) (simp_all add: set_add_def)

lemma distinct_allClientIds: "distinct (allClientIds st)"
  by (simp add: allClientIds_def distinct_fold_set_add)

text \<open>
  Claim C1, as the code has it.  A pass in which no update returns \<open>True\<close> sends nothing.
  A pass in which some update returns \<open>True\<close> sends a message to exactly the clients that are
  in some token's subscriber set and have a session whose socket is open and takes the
  message - whether or not one of their own tokens changed.  No client receives two
  messages from one pass, however many of its tokens it follows.  Every message carries the
  registry's current records of the tokens in the recipient's own subscription set, and of
  no other token.
\<close>

theorem fanout_reaches_every_subscribed_session:
  assumes pass: "updateTokens fetch clock (map fst (tokenSubscribers st)) st = (st1, results)"
  shows "(True \<notin> set results \<longrightarrow> snd (updateAllActivePrices fetch clock sendTime st) = [])
       \<and> (True \<in> set results \<longrightarrow>
            (\<forall>c. c \<in> recipient ` set (snd (updateAllActivePrices fetch clock sendTime st))
               \<longleftrightarrow> (\<exists>t cs. (t, cs) \<in> set (tokenSubscribers st) \<and> c \<in> set cs)
                   \<and> (\<exists>s. sessions st c = Some s \<and> readyStateOpen (webSocket s)
                           \<and> \<not> sendThrows (webSocket s))))
       \<and> distinct (map recipient (snd (updateAllActivePrices fetch clock sendTime st)))
       \<and> (\<forall>p \<in> set (snd (updateAllActivePrices fetch clock sendTime st)).
            \<exists>s. sessions st (recipient p) = Some s
               \<and> data p = List.map_filter (tokenRegistry st1) (subscribedTokens s))"
proof -
  have frame: "sessions st1 = sessions st" "tokenSubscribers st1 = tokenSubscribers st"
    using updateTokens_frame [of fetch clock "map fst (tokenSubscribers st)" st] pass by simp_all
  have ids: "allClientIds st1 = allClientIds st"
    by (simp add: allClientIds_def frame)
  have quiet: "snd (updateAllActivePrices fetch clock sendTime st) = []" if "True \<notin> set results"
    using that pass by (auto simp: updateAllActivePrices_def)
  have loud: "snd (updateAllActivePrices fetch clock sendTime st)
        = map (\<lambda>c. \<lparr>recipient = c, data = subscribedData st1 (the (sessions st c)),
                  timestamp = sendTime c\<rparr>)
         (filter (\<lambda>c. \<exists>s. sessions st c = Some s \<and> readyStateOpen (webSocket s)
                         \<and> \<not> sendThrows (webSocket s)) (allClientIds st))"
    if "True \<in> set results"
    using that pass
    by (auto simp: updateAllActivePrices_def notifyAllClients_def notifyLoop_sent frame ids)
  have who: "c \<in> recipient ` set (snd (updateAllActivePrices fetch clock sendTime st))
               \<longleftrightarrow> (\<exists>t cs. (t, cs) \<in> set (tokenSubscribers st) \<and> c \<in> set cs)
                   \<and> (\<exists>s. sessions st c = Some s \<and> readyStateOpen (webSocket s)
                           \<and> \<not> sendThrows (webSocket s))"
    if "True \<in> set results" for c
  proof -
    have "recipient ` set (snd (updateAllActivePrices fetch clock sendTime st))
        = {c \<in> set (allClientIds st). \<exists>s. sessions st c = Some s \<and> readyStateOpen (webSocket s)
                         \<and> \<not> sendThrows (webSocket s)}"
      unfolding loud [OF that] by (auto simp: image_iff)
    then show ?thesis by (simp add: set_allClientIds)
  qed
  have once: "distinct (map recipient (snd (updateAllActivePrices fetch clock sendTime st)))"
  proof (cases "True \<in> set results")
    case True
    have "map recipient (snd (updateAllActivePrices fetch clock sendTime st))
        = filter (\<lambda>c. \<exists>s. sessions st c = Some s \<and> readyStateOpen (webSocket s)
                         \<and> \<not> sendThrows (webSocket s)) (allClientIds st)"
      unfolding loud [OF True] by (simp add: comp_def)
    then show ?thesis by (simp add: distinct_allClientIds)
  next
    case False
    then show ?thesis by (simp add: quiet)
  qed
  have what: "\<exists>s. sessions st (recipient p) = Some s
               \<and> data p = List.map_filter (tokenRegistry st1) (subscribedTokens s)"
    if "p \<in> set (snd (updateAllActivePrices fetch clock sendTime st))" for p
  proof (cases "True \<in> set results")
    case True
    with that show ?thesis
      unfolding loud [OF True] by (auto simp: subscribedData_def)
  next
    case False
    with that quiet show ?thesis by simp
  qed
  from quiet who once what show ?thesis by blast
qed

text \<open>
  In the pass below \<open>client_1\<close> is in the subscriber sets of both tokens and receives one
  message, with the records of both; \<open>client_3\<close>, whose socket throws, receives none; a pass
  that finds the stored price at the same clock reading sends nothing.
\<close>

theorem fanout_reaches_every_subscribed_session_witness:
  "True \<in> set (snd (updateTokens (sushi_answers ''6'') (\<lambda>t i. 2000)
                      (map fst (tokenSubscribers three_sessions)) three_sessions))
   \<and> ''client_1'' \<in> recipient ` set (snd (updateAllActivePrices (sushi_answers ''6'')
          (\<lambda>t i. 2000) (\<lambda>c. 2001) three_sessions))
   \<and> ''client_3'' \<notin> recipient ` set (snd (updateAllActivePrices (sushi_answers ''6'')
          (\<lambda>t i. 2000) (\<lambda>c. 2001) three_sessions))
   \<and> distinct (map recipient (snd (updateAllActivePrices (sushi_answers ''6'')
          (\<lambda>t i. 2000) (\<lambda>c. 2001) three_sessions)))
   \<and> map (\<lambda>p. (recipient p, map address (data p))) (snd (updateAllActivePrices (sushi_answers ''6'')
          (\<lambda>t i. 2000) (\<lambda>c. 2001) three_sessions))
       = [(''client_1'', [''0xaa'', ''0xbb'']), (''client_2'', [''0xbb''])]
   \<and> snd (updateAllActivePrices (sushi_answers ''5'') (\<lambda>t i. 1000) (\<lambda>c. 2001) three_sessions) = []"
proof -
  let ?ts = "map fst (tokenSubscribers three_sessions)"
  have pass6: "updateTokens (sushi_answers ''6'') (\<lambda>t i. 2000) ?ts three_sessions
      = (fst (updateTokens (sushi_answers ''6'') (\<lambda>t i. 2000) ?ts three_sessions),
         snd (updateTokens (sushi_answers ''6'') (\<lambda>t i. 2000) ?ts three_sessions))"
    by simp
  have pass5: "updateTokens (sushi_answers ''5'') (\<lambda>t i. 1000) ?ts three_sessions
      = (fst (updateTokens (sushi_answers ''5'') (\<lambda>t i. 1000) ?ts three_sessions),
         snd (updateTokens (sushi_answers ''5'') (\<lambda>t i. 1000) ?ts three_sessions))"
    by simp
  have r6: "snd (updateTokens (sushi_answers ''6'') (\<lambda>t i. 2000) ?ts three_sessions) = [True, False]"
    by (simp add: three_sessions_def example_defs)
  have r5: "snd (updateTokens (sushi_answers ''5'') (\<lambda>t i. 1000) ?ts three_sessions) = [False, False]"
    by (simp add: three_sessions_def example_defs)
  have subs: "tokenSubscribers three_sessions
      = [(''0xaa'', [''client_1'']), (''0xbb'', [''client_1'', ''client_3'', ''client_2''])]"
    by (simp add: three_sessions_def)
  have s1: "\<exists>s. sessions three_sessions ''client_1'' = Some s \<and> readyStateOpen (webSocket s)
                \<and> \<not> sendThrows (webSocket s)"
    by (simp add: three_sessions_def)
  have s3: "\<not> (\<exists>s. sessions three_sessions ''client_3'' = Some s \<and> readyStateOpen (webSocket s)
                \<and> \<not> sendThrows (webSocket s))"
    by (simp add: three_sessions_def)
  have t6: "True \<in> set (snd (updateTokens (sushi_answers ''6'') (\<lambda>t i. 2000) ?ts three_sessions))"
    by (simp only: r6) simp
  have t5: "True \<notin> set (snd (updateTokens (sushi_answers ''5'') (\<lambda>t i. 1000) ?ts three_sessions))"
    by (simp only: r5) simp
  have in1: "\<exists>t cs. (t, cs) \<in> set (tokenSubscribers three_sessions) \<and> ''client_1'' \<in> set cs"
    by (rule exI [of _ "''0xaa''"], rule exI [of _ "[''client_1'']"]) (simp add: subs)
  note inst6 = fanout_reaches_every_subscribed_session [OF pass6, of "\<lambda>c. 2001"]
  from inst6 t6
  have who: "\<forall>c. c \<in> recipient ` set (snd (updateAllActivePrices (sushi_answers ''6'')
          (\<lambda>t i. 2000) (\<lambda>c. 2001) three_sessions))
       \<longleftrightarrow> (\<exists>t cs. (t, cs) \<in> set (tokenSubscribers three_sessions) \<and> c \<in> set cs)
           \<and> (\<exists>s. sessions three_sessions c = Some s \<and> readyStateOpen (webSocket s)
                   \<and> \<not> sendThrows (webSocket s))"
    by blast
  from who in1 s1
  have a: "''client_1'' \<in> recipient ` set (snd (updateAllActivePrices (sushi_answers ''6'')
          (\<lambda>t i. 2000) (\<lambda>c. 2001) three_sessions))"
    by blast
  from who s3
  have b: "''client_3'' \<notin> recipient ` set (snd (updateAllActivePrices (sushi_answers ''6'')
          (\<lambda>t i. 2000) (\<lambda>c. 2001) three_sessions))"
    by blast
  from inst6
  have once: "distinct (map recipient (snd (updateAllActivePrices (sushi_answers ''6'')
          (\<lambda>t i. 2000) (\<lambda>c. 2001) three_sessions)))"
    by (elim conjE)
  have sent: "map (\<lambda>p. (recipient p, map address (data p))) (snd (updateAllActivePrices
          (sushi_answers ''6'') (\<lambda>t i. 2000) (\<lambda>c. 2001) three_sessions))
       = [(''client_1'', [''0xaa'', ''0xbb'']), (''client_2'', [''0xbb''])]"
    by (simp add: three_sessions_def example_defs removeClient_def unsubscribeClientFromToken_def
        set_delete_def subscribedData_def List.map_filter_simps)
  from fanout_reaches_every_subscribed_session [OF pass5, of "\<lambda>c. 2001"] t5
  have c: "snd (updateAllActivePrices (sushi_answers ''5'') (\<lambda>t i. 1000) (\<lambda>c. 2001) three_sessions) = []"
    by blast
  from t6 a b once sent c show ?thesis by (intro conjI)
qed

text \<open>
  Claim C1 as stated fails.  In the pass below token \<open>0xaa\<close> changes and token \<open>0xbb\<close> does
  not; \<open>client_2\<close> is subscribed to \<open>0xbb\<close> only, and still receives a message.
\<close>

theorem fanout_reaches_unchanged_session_counterexample:
  "map fst (tokenSubscribers two_sessions) = [''0xaa'', ''0xbb'']
   \<and> snd (updateTokens (sushi_answers ''6'') (\<lambda>t i. 2000) [''0xaa'', ''0xbb''] two_sessions)
        = [True, False]
   \<and> map subscribedTokens (List.map_filter (sessions two_sessions) [''client_2'']) = [[''0xbb'']]
   \<and> ''client_2'' \<in> recipient ` set (snd (updateAllActivePrices (sushi_answers ''6'')
          (\<lambda>t i. 2000) (\<lambda>c. 2001) two_sessions))"
  by (simp add: example_defs)


section \<open>Baseline and change\<close>

lemma populate_venuePrices:
  "map_option (\<lambda>e. (info_priceInWei e, info_poolAddress e, info_liquidity e, info_fee e))
      \<circ> map_of (populate clock i found acc)
   = (map_option (\<lambda>e. (info_priceInWei e, info_poolAddress e, info_liquidity e, info_fee e))
      \<circ> map_of acc) ++ venuePrices found"
proof (induction found arbitrary: i acc)
  case Nil
  show ?case by (simp add: venuePrices_def)
next
  case (Cons p ps)
  show ?case
    by (simp add: Cons.IH venuePrices_def update_conv' map_add_assoc [symmetric] fun_eq_iff
        map_add_def split: option.splits)
qed

lemma populate_inject_venuePrices:
  assumes "populate clock1 0 found1 [] = populate clock2 0 found2 []"
  shows "venuePrices found1 = venuePrices found2"
proof -
  have "venuePrices found1
      = map_option (\<lambda>e. (info_priceInWei e, info_poolAddress e, info_liquidity e, info_fee e))
          \<circ> map_of (populate clock1 0 found1 [])"
    by (simp add: populate_venuePrices fun_eq_iff)
  also have "\<dots> = venuePrices found2"
    unfolding assms by (simp add: populate_venuePrices fun_eq_iff)
  finally show ?thesis .
qed

lemma updateSingle_other:
  "hasPriceService (fst (updateSingleTokenPrice clock fetched k st)) = hasPriceService st
   \<and> (t \<noteq> k \<longrightarrow> tokenRegistry (fst (updateSingleTokenPrice clock fetched k st)) t = tokenRegistry st t)"
  by (simp add: updateSingleTokenPrice_def Let_def split: option.splits sum.splits)

lemma updateSingle_local:
  assumes "hasPriceService st' = hasPriceService st" and "tokenRegistry st' t = tokenRegistry st t"
  shows "snd (updateSingleTokenPrice clock fetched t st') = snd (updateSingleTokenPrice clock fetched t st)"
  using assms by (simp add: updateSingleTokenPrice_def Let_def split: option.splits sum.splits)

lemma updateTokens_results:
  "distinct ts \<Longrightarrow>
   snd (updateTokens fetch clock ts st)
     = map (\<lambda>t. snd (updateSingleTokenPrice (clock t) (fetch t) t st)) ts"
proof (induction ts arbitrary: st)
  case Nil
  show ?case by simp
next
  case (Cons k ts)
  let ?st1 = "fst (updateSingleTokenPrice (clock k) (fetch k) k st)"
  have tail: "snd (updateTokens fetch clock ts ?st1)
      = map (\<lambda>t. snd (updateSingleTokenPrice (clock t) (fetch t) t ?st1)) ts"
    using Cons.prems by (intro Cons.IH) simp
  have same: "snd (updateSingleTokenPrice (clock t) (fetch t) t ?st1)
      = snd (updateSingleTokenPrice (clock t) (fetch t) t st)" if "t \<in> set ts" for t
  proof -
    from that Cons.prems have "t \<noteq> k" by auto
    with updateSingle_other [of "clock k" "fetch k" k st t] show ?thesis
      by (intro updateSingle_local) simp_all
  qed
  show ?case
    using same by (simp add: split_beta tail)
qed

text \<open>
  Claim C5.  A refresh of a token whose \<open>initialized\<close> flag is false returns \<open>False\<close>,
  whatever the price service finds, so when a pass that holds such a refresh notifies, it is
  because another token's update returned \<open>True\<close>.  A second successful refresh of the token
  that computes a different per-venue price set (another venue, pool address, rate, liquidity
  or fee) than the first one returns \<open>True\<close>, at any clock reading, and a pass that holds it
  runs the fan-out.
\<close>

theorem first_refresh_is_baseline_second_is_change:
  assumes svc: "hasPriceService st" and reg: "tokenRegistry st t = Some ti"
    and fresh: "\<not> initialized ti"
  shows "snd (updateSingleTokenPrice clock1 (Inr found1) t st) = False
       \<and> (distinct (map fst (tokenSubscribers st))
            \<and> snd (updateAllActivePrices fetch clock sendTime st) \<noteq> []
          \<longrightarrow> (\<exists>k \<in> set (map fst (tokenSubscribers st)). k \<noteq> t
                 \<and> snd (updateSingleTokenPrice (clock k) (fetch k) k st) = True))
       \<and> (venuePrices found2 \<noteq> venuePrices found1
          \<longrightarrow> snd (updateSingleTokenPrice clock2 (Inr found2) t
                 (fst (updateSingleTokenPrice clock1 (Inr found1) t st))) = True)
       \<and> (venuePrices found2 \<noteq> venuePrices found1
            \<and> distinct (map fst (tokenSubscribers st)) \<and> t \<in> set (map fst (tokenSubscribers st))
            \<and> fetch' t = Inr found2
          \<longrightarrow> updateAllActivePrices fetch' clock' sendTime
                 (fst (updateSingleTokenPrice clock1 (Inr found1) t st))
              = notifyAllClients sendTime
                 (fst (updateTokens fetch' clock' (map fst (tokenSubscribers st))
                   (fst (updateSingleTokenPrice clock1 (Inr found1) t st)))))"
proof -
  let ?ti1 = "ti\<lparr>dexPrices := populate clock1 0 found1 [],
                 lastUpdate := clock1 (length found1), initialized := True\<rparr>"
  let ?st1 = "st\<lparr>tokenRegistry := (tokenRegistry st)(t \<mapsto> ?ti1)\<rparr>"
  let ?keys = "map fst (tokenSubscribers st)"
  have baseline: "snd (updateSingleTokenPrice c f t st) = False" for c f
    using assms by (simp add: updateSingleTokenPrice_def Let_def split: sum.splits)
  have first: "updateSingleTokenPrice clock1 (Inr found1) t st = (?st1, False)"
    using assms by (simp add: updateSingleTokenPrice_def Let_def)
  have second: "snd (updateSingleTokenPrice c (Inr found2) t ?st1)
      = (JSON_stringify (populate clock1 0 found1 []) \<noteq> JSON_stringify (populate c 0 found2 []))" for c
    using svc by (simp add: updateSingleTokenPrice_def Let_def)
  have changed: "snd (updateSingleTokenPrice c (Inr found2) t ?st1) = True"
    if "venuePrices found2 \<noteq> venuePrices found1" for c
    unfolding second using that
    by (auto dest!: JSON_stringify_inject populate_inject_venuePrices)
  have quiet: "\<exists>k \<in> set ?keys. k \<noteq> t \<and> snd (updateSingleTokenPrice (clock k) (fetch k) k st) = True"
    if d: "distinct ?keys" and sent: "snd (updateAllActivePrices fetch clock sendTime st) \<noteq> []"
  proof -
    have "True \<in> set (snd (updateTokens fetch clock ?keys st))"
      using sent by (auto simp: updateAllActivePrices_def split_beta Let_def split: if_splits)
    then obtain k where "k \<in> set ?keys" "snd (updateSingleTokenPrice (clock k) (fetch k) k st) = True"
      unfolding updateTokens_results [OF d] by auto
    moreover from this baseline have "k \<noteq> t" by auto
    ultimately show ?thesis by blast
  qed
  have loud: "updateAllActivePrices fetch' clock' sendTime ?st1
      = notifyAllClients sendTime (fst (updateTokens fetch' clock' ?keys ?st1))"
    if "venuePrices found2 \<noteq> venuePrices found1" and d: "distinct ?keys" and "t \<in> set ?keys"
      and "fetch' t = Inr found2"
  proof -
    have d1: "distinct (map fst (tokenSubscribers ?st1))" using d by simp
    have "snd (updateSingleTokenPrice (clock' t) (fetch' t) t ?st1) = True"
      using that changed [of "clock' t"] by simp
    with \<open>t \<in> set ?keys\<close>
    have "True \<in> (\<lambda>k. snd (updateSingleTokenPrice (clock' k) (fetch' k) k ?st1)) ` set ?keys"
      by (rule_tac rev_image_eqI) simp_all
    then have "True \<in> set (snd (updateTokens fetch' clock' ?keys ?st1))"
      unfolding updateTokens_results [OF d] set_map .
    then show ?thesis
      by (auto simp: updateAllActivePrices_def split_beta Let_def)
  qed
  show ?thesis
    unfolding first fst_conv snd_conv
    using quiet changed loud by blast
qed

text \<open>
  Both refreshes below read the clock at 1000; the second finds the same pool at the rate 6
  instead of 5.
\<close>

theorem first_refresh_is_baseline_second_is_change_witness:
  "snd (updateSingleTokenPrice (\<lambda>i. 1000) (Inr [sushi_pool ''5'']) ''0xaa'' new_subscription) = False
   \<and> snd (updateAllActivePrices (sushi_answers ''5'') (\<lambda>t i. 1000) (\<lambda>c. 1001) new_subscription) = []
   \<and> snd (updateSingleTokenPrice (\<lambda>i. 1000) (Inr [sushi_pool ''6'']) ''0xaa''
        (fst (updateSingleTokenPrice (\<lambda>i. 1000) (Inr [sushi_pool ''5'']) ''0xaa'' new_subscription)))
       = True
   \<and> map recipient (snd (updateAllActivePrices (sushi_answers ''6'') (\<lambda>t i. 1000) (\<lambda>c. 1001)
        (fst (updateSingleTokenPrice (\<lambda>i. 1000) (Inr [sushi_pool ''5'']) ''0xaa'' new_subscription))))
       = [''client_1'']"
proof -
  let ?st1 = "fst (updateSingleTokenPrice (\<lambda>i. 1000) (Inr [sushi_pool ''5'']) ''0xaa'' new_subscription)"
  have svc: "hasPriceService new_subscription" by (simp add: new_subscription_def)
  have reg: "tokenRegistry new_subscription ''0xaa'' = Some (placeholder ''0xaa'')"
    by (simp add: new_subscription_def)
  have fresh: "\<not> initialized (placeholder ''0xaa'')" by (simp add: placeholder_def)
  have keys: "map fst (tokenSubscribers new_subscription) = [''0xaa'']"
    by (simp add: new_subscription_def)
  have moved: "venuePrices [sushi_pool ''6''] \<noteq> venuePrices [sushi_pool ''5'']"
  proof
    assume "venuePrices [sushi_pool ''6''] = venuePrices [sushi_pool ''5'']"
    then have "venuePrices [sushi_pool ''6''] ''sushiswap'' = venuePrices [sushi_pool ''5''] ''sushiswap''"
      by simp
    then show False by (simp add: venuePrices_def sushi_pool_def)
  qed
  have answer: "sushi_answers ''6'' ''0xaa'' = Inr [sushi_pool ''6'']"
    by (simp add: sushi_answers_def)
  note inst = first_refresh_is_baseline_second_is_change [OF svc reg fresh,
      of "\<lambda>i. 1000" "[sushi_pool ''5'']" "sushi_answers ''5''" "\<lambda>t i. 1000" "\<lambda>c. 1001"
         "[sushi_pool ''6'']" "\<lambda>i. 1000" "sushi_answers ''6''" "\<lambda>t i. 1000"]
  from inst have a: "snd (updateSingleTokenPrice (\<lambda>i. 1000) (Inr [sushi_pool ''5'']) ''0xaa''
      new_subscription) = False"
    by (elim conjE)
  from inst have "distinct (map fst (tokenSubscribers new_subscription))
            \<and> snd (updateAllActivePrices (sushi_answers ''5'') (\<lambda>t i. 1000) (\<lambda>c. 1001) new_subscription) \<noteq> []
          \<longrightarrow> (\<exists>k \<in> set (map fst (tokenSubscribers new_subscription)). k \<noteq> ''0xaa''
                 \<and> snd (updateSingleTokenPrice (\<lambda>i. 1000) (sushi_answers ''5'' k) k new_subscription) = True)"
    by (elim conjE)
  then have b: "snd (updateAllActivePrices (sushi_answers ''5'') (\<lambda>t i. 1000) (\<lambda>c. 1001)
      new_subscription) = []"
    unfolding keys by auto
  from inst moved have c: "snd (updateSingleTokenPrice (\<lambda>i. 1000) (Inr [sushi_pool ''6'']) ''0xaa'' ?st1) = True"
    by blast
  from inst moved answer have "updateAllActivePrices (sushi_answers ''6'') (\<lambda>t i. 1000) (\<lambda>c. 1001) ?st1
      = notifyAllClients (\<lambda>c. 1001)
          (fst (updateTokens (sushi_answers ''6'') (\<lambda>t i. 1000)
                 (map fst (tokenSubscribers new_subscription)) ?st1))"
    unfolding keys by simp
  then have d: "map recipient (snd (updateAllActivePrices (sushi_answers ''6'') (\<lambda>t i. 1000)
      (\<lambda>c. 1001) ?st1)) = [''client_1'']"
    by (simp add: new_subscription_def example_defs split_beta)
  from a b c d show ?thesis by (intro conjI)
qed

text \<open>
  Claim C3 on the code.  Token \<open>0xaa\<close> holds what a refresh at clock reading 1000 stored for
  one pool.  A refresh at clock reading 2000 that finds the same pool with the same price,
  liquidity and fee returns \<open>True\<close>: every stored entry carries its own \<open>lastUpdate\<close>, which
  is part of the text compared.  The pass then notifies the clients.
\<close>

theorem unchanged_prices_reported_changed:
  "dexPrices (the (tokenRegistry two_sessions ''0xaa'')) = populate (\<lambda>i. 1000) 0 [sushi_pool ''5''] []
   \<and> snd (updateSingleTokenPrice (\<lambda>i. 2000) (Inr [sushi_pool ''5'']) ''0xaa'' two_sessions) = True
   \<and> map recipient (snd (updateAllActivePrices (sushi_answers ''5'') (\<lambda>t i. 2000) (\<lambda>c. 2001)
        two_sessions)) = [''client_1'', ''client_2'']"
  by (simp add: example_defs)

section \<open>Ranking\<close>

lemma set_insertSorted: "set (insertSorted cmp x ys) = insert x (set ys)"
  by (induction ys) auto

lemma set_js_sort: "set (js_sort cmp xs) = set xs"
  by (induction xs) (simp_all add: js_sort_def set_insertSorted)







lemma deduplicateAndSort_nonzero:
  "r \<in> set (deduplicateAndSort pf rs) \<Longrightarrow> priceInWei r \<noteq> ''0''"
  by (simp add: deduplicateAndSort_def Let_def set_js_sort)

lemma getAllAvailablePrices_cases:
  "getAllAvailablePrices env t = getDirectDexPools env t
   \<or> (\<exists>rs. getAllAvailablePrices env t = deduplicateAndSort (parseFloat env) rs)"
  by (auto simp: getAllAvailablePrices_def getMoralisPools_def Let_def split: sum.splits if_splits)



section \<open>Fallback to direct discovery\<close>

text \<open>
  Claim C9.  \<open>getAllAvailablePrices\<close> always returns a list.  When the query of the pool index
  fails (\<open>fetch\<close> throws, the status is not a success, the body is malformed), when pricing
  the indexed pools throws, or when the index yields no usable result, the list returned is
  the list direct discovery finds.
\<close>

theorem index_failure_falls_back_to_direct:
  assumes "moralisReply env tokenAddress = FetchThrows \<or> moralisReply env tokenAddress = NotOk
         \<or> moralisReply env tokenAddress = BadBody
         \<or> (\<exists>e. getMoralisPools env tokenAddress = Inl e)
         \<or> getMoralisPools env tokenAddress = Inr []"
  shows "getAllAvailablePrices env tokenAddress = getDirectDexPools env tokenAddress"
  using assms
  by (auto simp: getAllAvailablePrices_def getMoralisPools_def queryMoralisForPools_def Let_def)

section \<open>The resolver and the zero rate\<close>

lemma v3Tier_cases:
  "v3Tier env f tokenA tokenB dexName feeTier = []
   \<or> (\<exists>p q. 0 < getPoolLiquidity env p True
         \<and> v3Tier env f tokenA tokenB dexName feeTier
             = [mkPoolResult dexName p (show_nat (getPoolLiquidity env p True)) q (Some feeTier)])"
  by (auto simp: v3Tier_def Let_def split: option.splits)

lemma v3Tier_liquidity:
  assumes "r \<in> set (v3Tier env f tokenA tokenB dexName feeTier)"
  shows "0 < getPoolLiquidity env (poolAddress r) True
       \<and> liquidity r = show_nat (getPoolLiquidity env (poolAddress r) True)"
  using v3Tier_cases [of env f tokenA tokenB dexName feeTier] assms
  by (elim disjE exE conjE) (simp_all add: mkPoolResult_def)

lemma v2_cases:
  assumes "\<not> (dexName = ''uniswap_v3'' \<or> dexName = ''pancakeswap_v3'')"
  shows "getDexPrices env tokenA tokenB dexName = []
   \<or> (\<exists>p q. 0 < getPoolLiquidity env p False
         \<and> getDexPrices env tokenA tokenB dexName
             = [mkPoolResult dexName p (show_nat (getPoolLiquidity env p False)) q None])"
  using assms by (auto simp: getDexPrices_def Let_def split: option.splits)

lemma getDexPrices_liquidity:
  assumes "r \<in> set (getDexPrices env tokenA tokenB dexName)"
  shows "0 < getPoolLiquidity env (poolAddress r) (dexName = ''uniswap_v3'' \<or> dexName = ''pancakeswap_v3'')
       \<and> liquidity r = show_nat (getPoolLiquidity env (poolAddress r)
                                   (dexName = ''uniswap_v3'' \<or> dexName = ''pancakeswap_v3''))"
proof (cases "dexName = ''uniswap_v3'' \<or> dexName = ''pancakeswap_v3''")
  case True
  let ?f = "if dexName = ''uniswap_v3'' then UNISWAP_V3_FACTORY else PANCAKESWAP_V3_FACTORY"
  have "getDexPrices env tokenA tokenB dexName
      = concat (map (v3Tier env ?f tokenA tokenB dexName) V3_FEE_TIERS)"
    using True by (simp add: getDexPrices_def Let_def)
  with assms obtain feeTier where "r \<in> set (v3Tier env ?f tokenA tokenB dexName feeTier)"
    by auto
  from v3Tier_liquidity [OF this] True show ?thesis by simp
next
  case False
  from v2_cases [OF False, of env tokenA tokenB] assms False show ?thesis
    by (elim disjE exE conjE) (simp_all add: mkPoolResult_def)
qed

lemma getAllAvailablePrices_nonzero:
  "r \<in> set (getAllAvailablePrices env t) \<Longrightarrow> priceInWei r \<noteq> ''0''"
  using getAllAvailablePrices_cases [of env t]
  by (auto simp: getDirectDexPools_def dest: deduplicateAndSort_nonzero)

lemma no_slot0_no_v3: "call_slot0 env pool = None \<Longrightarrow> priceAttempt env True tok pool = None"
  by (simp add: priceAttempt_def Let_def split: option.splits)

lemma empty_reserves_no_v2:
  "call_getReserves env pool = Some (reserve0, reserve1) \<Longrightarrow> reserve0 = 0 \<or> reserve1 = 0
   \<Longrightarrow> priceAttempt env False tok pool = None"
  by (simp add: priceAttempt_def Let_def split: option.splits)

lemma positive_reserves_v2:
  assumes "call_getReserves env pool = Some (reserve0, reserve1)" and "0 < reserve0" and "0 < reserve1"
    and "call_token0 env pool = Some t0" and "call_token1 env pool = Some t1"
    and "call_decimals env t0 = Some d0" and "call_decimals env t1 = Some d1"
    and "call_symbol env t0 = Some s0" and "call_symbol env t1 = Some s1"
  shows "priceAttempt env False tok pool \<noteq> None"
  using assms by (simp add: priceAttempt_def Let_def)

lemma constant_product_empty:
  assumes "call_slot0 env pool = None" and "call_getReserves env pool = Some (reserve0, reserve1)"
    and "reserve0 = 0 \<or> reserve1 = 0"
  shows "getTokenPriceFromPool env tok pool = None"
  using no_slot0_no_v3 [OF assms(1)] empty_reserves_no_v2 [OF assms(2,3)]
  by (simp add: getTokenPriceFromPool_def)

lemma constant_product_priced:
  assumes "call_slot0 env pool = None" and "call_getReserves env pool = Some (reserve0, reserve1)"
    and "0 < reserve0" and "0 < reserve1"
    and "call_token0 env pool = Some t0" and "call_token1 env pool = Some t1"
    and "call_decimals env t0 \<noteq> None" and "call_decimals env t1 \<noteq> None"
    and "call_symbol env t0 \<noteq> None" and "call_symbol env t1 \<noteq> None"
  shows "getTokenPriceFromPool env tok pool \<noteq> None"
proof -
  from assms(7-10) obtain d0 d1 s0 s1 where
    "call_decimals env t0 = Some d0" "call_decimals env t1 = Some d1"
    "call_symbol env t0 = Some s0" "call_symbol env t1 = Some s1"
    by auto
  from positive_reserves_v2 [OF assms(2-6) this] no_slot0_no_v3 [OF assms(1)]
  show ?thesis by (simp add: getTokenPriceFromPool_def)
qed

lemma digit_char_zero: "n < 10 \<Longrightarrow> digit_char n = CHR ''0'' \<longleftrightarrow> n = 0"
proof -
  assume "n < 10"
  then consider "n = 0" | "n = 1" | "n = 2" | "n = 3" | "n = 4" | "n = 5" | "n = 6" | "n = 7"
    | "n = 8" | "n = 9"
    by atomize_elim arith
  then show ?thesis by cases (simp_all add: digit_char_def)
qed

lemma show_nat_nonempty: "show_nat n \<noteq> []"
  by (subst show_nat.simps) simp

lemma show_nat_zero: "show_nat n = ''0'' \<longleftrightarrow> n = 0"
proof (cases "n < 10")
  case True
  then show ?thesis
    by (subst show_nat.simps) (simp add: digit_char_zero)
next
  case False
  then show ?thesis
    by (subst show_nat.simps) (simp add: show_nat_nonempty)
qed

lemma constant_product_rate:
  assumes "call_token0 env pool = Some t0" and "call_token1 env pool = Some t1"
    and "call_decimals env t0 = Some d0" and "call_decimals env t1 = Some d1"
    and "call_symbol env t0 = Some s0" and "call_symbol env t1 = Some s1"
    and "call_slot0 env pool = None" and "call_getReserves env pool = Some (reserve0, reserve1)"
    and "0 < reserve0" and "0 < reserve1"
  shows "getTokenPriceFromPool env tok pool
     = Some (if toLowerCase t0 = toLowerCase tok
             then \<lparr>quote_priceInWei = show_nat ((reserve1 * 10 ^ d1) div (reserve0 * 10 ^ d0)),
                   quote_baseToken = t1, quote_baseTokenSymbol = s1\<rparr>
             else \<lparr>quote_priceInWei = show_nat ((reserve0 * 10 ^ d0) div (reserve1 * 10 ^ d1)),
                   quote_baseToken = t0, quote_baseTokenSymbol = s0\<rparr>)"
  using assms by (simp add: getTokenPriceFromPool_def priceAttempt_def Let_def)

lemma concentrated_rate_token0:
  assumes "call_token0 env pool = Some t0" and "call_token1 env pool = Some t1"
    and "call_decimals env t0 = Some d0" and "call_decimals env t1 = Some d1"
    and "call_symbol env t0 = Some s0" and "call_symbol env t1 = Some s1"
    and "call_slot0 env pool = Some q" and "toLowerCase t0 = toLowerCase tok"
  shows "getTokenPriceFromPool env tok pool
     = Some \<lparr>quote_priceInWei = show_nat ((q * q * 10 ^ d1) div (2 ^ 96 * 2 ^ 96 * 10 ^ d0)),
             quote_baseToken = t1, quote_baseTokenSymbol = s1\<rparr>"
  using assms by (simp add: getTokenPriceFromPool_def priceAttempt_def Let_def)

lemma concentrated_rate_token1:
  assumes "call_token0 env pool = Some t0" and "call_token1 env pool = Some t1"
    and "call_decimals env t0 = Some d0" and "call_decimals env t1 = Some d1"
    and "call_symbol env t0 = Some s0" and "call_symbol env t1 = Some s1"
    and "call_slot0 env pool = Some q" and "toLowerCase t0 \<noteq> toLowerCase tok" and "0 < q"
  shows "getTokenPriceFromPool env tok pool
     = Some \<lparr>quote_priceInWei = show_nat ((2 ^ 96 * 2 ^ 96 * 10 ^ d0 * 10 ^ d1) div (q * q * 10 ^ d1)),
             quote_baseToken = t0, quote_baseTokenSymbol = s0\<rparr>"
  using assms by (simp add: getTokenPriceFromPool_def priceAttempt_def Let_def)

lemma resolve_ignores_liquidity:
  "getTokenPriceFromPool (env\<lparr>call_liquidity := l\<rparr>) tok pool = getTokenPriceFromPool env tok pool"
  by (simp add: getTokenPriceFromPool_def priceAttempt_def
      cong: option.case_cong prod.case_cong if_cong)

text \<open>
  Claim C4, as the code has it.  A pool that does not answer the concentrated-liquidity
  read and has an empty reserve is not priced.  With both reserves positive and the tokens'
  metadata readable, the rate is the truncated quotient of the scaled reserves.  A pool that
  answers the concentrated-liquidity read is priced from \<open>sqrtPriceX96\<close> alone, whatever its
  liquidity: the resolver never reads it.  The rate is written as the text \<open>0\<close> exactly when
  the quotient is zero.  \<open>getDexPrices\<close> prices only pools whose liquidity is positive, and
  \<open>deduplicateAndSort\<close> drops every entry whose rate is the text \<open>0\<close>, so no entry of
  \<open>getAllAvailablePrices\<close> has that rate.
\<close>

theorem resolve_empty_pair_and_zero_rates:
  "(call_slot0 env pool = None \<and> call_getReserves env pool = Some (reserve0, reserve1)
      \<and> (reserve0 = 0 \<or> reserve1 = 0)
    \<longrightarrow> getTokenPriceFromPool env tok pool = None)
   \<and> (call_token0 env pool = Some t0 \<and> call_token1 env pool = Some t1
        \<and> call_decimals env t0 = Some d0 \<and> call_decimals env t1 = Some d1
        \<and> call_symbol env t0 = Some s0 \<and> call_symbol env t1 = Some s1
      \<longrightarrow>
        (call_slot0 env pool = None \<and> call_getReserves env pool = Some (reserve0, reserve1)
           \<and> 0 < reserve0 \<and> 0 < reserve1
         \<longrightarrow> getTokenPriceFromPool env tok pool
              = Some (if toLowerCase t0 = toLowerCase tok
                      then \<lparr>quote_priceInWei = show_nat ((reserve1 * 10 ^ d1) div (reserve0 * 10 ^ d0)),
                            quote_baseToken = t1, quote_baseTokenSymbol = s1\<rparr>
                      else \<lparr>quote_priceInWei = show_nat ((reserve0 * 10 ^ d0) div (reserve1 * 10 ^ d1)),
                            quote_baseToken = t0, quote_baseTokenSymbol = s0\<rparr>))
        \<and> (call_slot0 env pool = Some q \<and> toLowerCase t0 = toLowerCase tok
         \<longrightarrow> getTokenPriceFromPool env tok pool
              = Some \<lparr>quote_priceInWei = show_nat ((q * q * 10 ^ d1) div (2 ^ 96 * 2 ^ 96 * 10 ^ d0)),
                      quote_baseToken = t1, quote_baseTokenSymbol = s1\<rparr>)
        \<and> (call_slot0 env pool = Some q \<and> toLowerCase t0 \<noteq> toLowerCase tok \<and> 0 < q
         \<longrightarrow> getTokenPriceFromPool env tok pool
              = Some \<lparr>quote_priceInWei
                        = show_nat ((2 ^ 96 * 2 ^ 96 * 10 ^ d0 * 10 ^ d1) div (q * q * 10 ^ d1)),
                      quote_baseToken = t0, quote_baseTokenSymbol = s0\<rparr>))
   \<and> (show_nat n = ''0'' \<longleftrightarrow> n = 0)
   \<and> getTokenPriceFromPool (env\<lparr>call_liquidity := l\<rparr>) tok pool = getTokenPriceFromPool env tok pool
   \<and> (\<forall>r \<in> set (getDexPrices env' tokenA tokenB dexName).
        0 < getPoolLiquidity env' (poolAddress r)
              (dexName = ''uniswap_v3'' \<or> dexName = ''pancakeswap_v3''))
   \<and> (\<forall>r \<in> set (getAllAvailablePrices env' tokenAddress). priceInWei r \<noteq> ''0'')"
proof (intro conjI impI ballI)
  assume "call_slot0 env pool = None \<and> call_getReserves env pool = Some (reserve0, reserve1)
      \<and> (reserve0 = 0 \<or> reserve1 = 0)"
  then show "getTokenPriceFromPool env tok pool = None"
    using constant_product_empty [of env pool reserve0 reserve1 tok] by blast
next
  assume "call_token0 env pool = Some t0 \<and> call_token1 env pool = Some t1
        \<and> call_decimals env t0 = Some d0 \<and> call_decimals env t1 = Some d1
        \<and> call_symbol env t0 = Some s0 \<and> call_symbol env t1 = Some s1"
    and "call_slot0 env pool = None \<and> call_getReserves env pool = Some (reserve0, reserve1)
           \<and> 0 < reserve0 \<and> 0 < reserve1"
  then show "getTokenPriceFromPool env tok pool
              = Some (if toLowerCase t0 = toLowerCase tok
                      then \<lparr>quote_priceInWei = show_nat ((reserve1 * 10 ^ d1) div (reserve0 * 10 ^ d0)),
                            quote_baseToken = t1, quote_baseTokenSymbol = s1\<rparr>
                      else \<lparr>quote_priceInWei = show_nat ((reserve0 * 10 ^ d0) div (reserve1 * 10 ^ d1)),
                            quote_baseToken = t0, quote_baseTokenSymbol = s0\<rparr>)"
    by (elim conjE) (rule constant_product_rate)
next
  assume "call_token0 env pool = Some t0 \<and> call_token1 env pool = Some t1
        \<and> call_decimals env t0 = Some d0 \<and> call_decimals env t1 = Some d1
        \<and> call_symbol env t0 = Some s0 \<and> call_symbol env t1 = Some s1"
    and "call_slot0 env pool = Some q \<and> toLowerCase t0 = toLowerCase tok"
  then show "getTokenPriceFromPool env tok pool
              = Some \<lparr>quote_priceInWei = show_nat ((q * q * 10 ^ d1) div (2 ^ 96 * 2 ^ 96 * 10 ^ d0)),
                      quote_baseToken = t1, quote_baseTokenSymbol = s1\<rparr>"
    by (elim conjE) (rule concentrated_rate_token0)
next
  assume "call_token0 env pool = Some t0 \<and> call_token1 env pool = Some t1
        \<and> call_decimals env t0 = Some d0 \<and> call_decimals env t1 = Some d1
        \<and> call_symbol env t0 = Some s0 \<and> call_symbol env t1 = Some s1"
    and "call_slot0 env pool = Some q \<and> toLowerCase t0 \<noteq> toLowerCase tok \<and> 0 < q"
  then show "getTokenPriceFromPool env tok pool
              = Some \<lparr>quote_priceInWei
                        = show_nat ((2 ^ 96 * 2 ^ 96 * 10 ^ d0 * 10 ^ d1) div (q * q * 10 ^ d1)),
                      quote_baseToken = t0, quote_baseTokenSymbol = s0\<rparr>"
    by (elim conjE) (rule concentrated_rate_token1)
next
  show "show_nat n = ''0'' \<longleftrightarrow> n = 0" by (rule show_nat_zero)
next
  show "getTokenPriceFromPool (env\<lparr>call_liquidity := l\<rparr>) tok pool = getTokenPriceFromPool env tok pool"
    by (rule resolve_ignores_liquidity)
next
  fix r assume "r \<in> set (getDexPrices env' tokenA tokenB dexName)"
  from getDexPrices_liquidity [OF this]
  show "0 < getPoolLiquidity env' (poolAddress r)
              (dexName = ''uniswap_v3'' \<or> dexName = ''pancakeswap_v3'')"
    by simp
next
  fix r assume "r \<in> set (getAllAvailablePrices env' tokenAddress)"
  then show "priceInWei r \<noteq> ''0''" by (rule getAllAvailablePrices_nonzero)
qed

section \<open>The example market, evaluated\<close>

lemmas market_defs = market_def UNI_def USDC_def WETH_ADDRESS_def ZeroAddress_def
  UNISWAP_V3_FACTORY_def UNISWAP_V2_FACTORY_def SUSHISWAP_FACTORY_def PANCAKESWAP_V2_FACTORY_def
  PANCAKESWAP_V3_FACTORY_def

lemmas price_defs = getTokenPriceFromPool_def priceAttempt_def toLowerCase_def lower_char_def
  Let_def show_nat.simps digit_char_def


lemmas discovery_defs = getAllAvailablePrices_def getMoralisPools_def queryMoralisForPools_def
  getDirectDexPools_def getDexPrices_def v3Tier_def v2FactoryAddress_def getPoolLiquidity_def
  mkPoolResult_def dexesToTry_def baseTokens_def V3_FEE_TIERS_def deduplicateAndSort_def
  dedupStep_def js_sort_def compareResults_def read_nat_def digit_value_def

lemma market_prices:
  "getAllAvailablePrices
     (market NotOk (Some (2, 8)) (Some (1, 9 * 10 ^ 12)) None [(16, 4), (9 * 10 ^ 12, 3 * 10 ^ 6)]) UNI
   = [\<lparr>dex = ''sushiswap'', poolAddress = ''0xpoolA'', liquidity = ''4'',
       priceInWei = ''4'', baseToken = WETH_ADDRESS, baseTokenSymbol = ''WETH'', fee = None\<rparr>,
      \<lparr>dex = ''uniswap_v2'', poolAddress = ''0xpoolB'', liquidity = ''3000000'',
       priceInWei = ''9'', baseToken = USDC, baseTokenSymbol = ''USDC'', fee = None\<rparr>]"
  by (simp add: market_defs price_defs discovery_defs)











theorem index_failure_falls_back_to_direct_witness:
  "moralisReply (market NotOk (Some (2, 8)) (Some (1, 9 * 10 ^ 12)) None
       [(16, 4), (9 * 10 ^ 12, 3 * 10 ^ 6)]) UNI = NotOk
   \<and> getDirectDexPools (market NotOk (Some (2, 8)) (Some (1, 9 * 10 ^ 12)) None
       [(16, 4), (9 * 10 ^ 12, 3 * 10 ^ 6)]) UNI
     = [\<lparr>dex = ''sushiswap'', poolAddress = ''0xpoolA'', liquidity = ''4'',
       priceInWei = ''4'', baseToken = WETH_ADDRESS, baseTokenSymbol = ''WETH'', fee = None\<rparr>,
      \<lparr>dex = ''uniswap_v2'', poolAddress = ''0xpoolB'', liquidity = ''3000000'',
       priceInWei = ''9'', baseToken = USDC, baseTokenSymbol = ''USDC'', fee = None\<rparr>]
   \<and> getMoralisPools (market (Pairs [\<lparr>exchange_name = Some ''Uniswap v2'', pair_address = ''0xpoolB'',
          liquidity_usd = 5000, pair = None\<rparr>]) None None None []) UNI = Inl ''TypeError''
   \<and> getAllAvailablePrices (market (Pairs [\<lparr>exchange_name = Some ''Uniswap v2'', pair_address = ''0xpoolB'',
          liquidity_usd = 5000, pair = None\<rparr>]) None None None []) UNI
     = getDirectDexPools (market (Pairs [\<lparr>exchange_name = Some ''Uniswap v2'', pair_address = ''0xpoolB'',
          liquidity_usd = 5000, pair = None\<rparr>]) None None None []) UNI"
proof -
  let ?m = "market NotOk (Some (2, 8)) (Some (1, 9 * 10 ^ 12)) None [(16, 4), (9 * 10 ^ 12, 3 * 10 ^ 6)]"
  let ?bad = "market (Pairs [\<lparr>exchange_name = Some ''Uniswap v2'', pair_address = ''0xpoolB'',
          liquidity_usd = 5000, pair = None\<rparr>]) None None None []"
  have reply: "moralisReply ?m UNI = NotOk"
    by (simp add: market_def)
  then have h: "moralisReply ?m UNI = FetchThrows \<or> moralisReply ?m UNI = NotOk
         \<or> moralisReply ?m UNI = BadBody
         \<or> (\<exists>e. getMoralisPools ?m UNI = Inl e) \<or> getMoralisPools ?m UNI = Inr []"
    by simp
  have thrown: "getMoralisPools ?bad UNI = Inl ''TypeError''"
    by (simp add: market_def getMoralisPools_def queryMoralisForPools_def pairStep_def isSupported_def
        supportedName_def toLowerCase_def lower_char_def Let_def)
  then have h': "moralisReply ?bad UNI = FetchThrows \<or> moralisReply ?bad UNI = NotOk
         \<or> moralisReply ?bad UNI = BadBody
         \<or> (\<exists>e. getMoralisPools ?bad UNI = Inl e) \<or> getMoralisPools ?bad UNI = Inr []"
    by simp
  have direct: "getDirectDexPools ?m UNI
     = [\<lparr>dex = ''sushiswap'', poolAddress = ''0xpoolA'', liquidity = ''4'',
       priceInWei = ''4'', baseToken = WETH_ADDRESS, baseTokenSymbol = ''WETH'', fee = None\<rparr>,
      \<lparr>dex = ''uniswap_v2'', poolAddress = ''0xpoolB'', liquidity = ''3000000'',
       priceInWei = ''9'', baseToken = USDC, baseTokenSymbol = ''USDC'', fee = None\<rparr>]"
    using index_failure_falls_back_to_direct [OF h] by (simp only: market_prices)
  from reply direct thrown index_failure_falls_back_to_direct [OF h']
  show ?thesis by (intro conjI)
qed

theorem resolve_empty_pair_and_zero_rates_witness:
  "getTokenPriceFromPool (market NotOk None (Some (0, 5)) None []) UNI ''0xpoolB'' = None
   \<and> getTokenPriceFromPool (market NotOk None (Some (1, 9 * 10 ^ 12)) None []) UNI ''0xpoolB''
       = Some \<lparr>quote_priceInWei = ''9'', quote_baseToken = USDC, quote_baseTokenSymbol = ''USDC''\<rparr>
   \<and> getTokenPriceFromPool (market NotOk None None (Some (2 ^ 96, 0)) []) USDC ''0xpoolC''
       = Some \<lparr>quote_priceInWei = ''1000000000000'', quote_baseToken = WETH_ADDRESS,
               quote_baseTokenSymbol = ''WETH''\<rparr>
   \<and> getTokenPriceFromPool (market NotOk None None (Some (2 ^ 96, 0)) []) WETH_ADDRESS ''0xpoolC''
       = Some \<lparr>quote_priceInWei = ''1000000'', quote_baseToken = USDC,
               quote_baseTokenSymbol = ''USDC''\<rparr>
   \<and> getTokenPriceFromPool (market NotOk None None (Some (2 ^ 96, 0)) []
          \<lparr>call_liquidity := \<lambda>p. Some 7\<rparr>) USDC ''0xpoolC''
       = getTokenPriceFromPool (market NotOk None None (Some (2 ^ 96, 0)) []) USDC ''0xpoolC''
   \<and> ''0'' \<notin> priceInWei ` set (getAllAvailablePrices
        (market NotOk (Some (2, 8)) (Some (1, 9 * 10 ^ 12)) None [(16, 4), (9 * 10 ^ 12, 3 * 10 ^ 6)]) UNI)
   \<and> getAllAvailablePrices
        (market NotOk (Some (2, 8)) (Some (1, 9 * 10 ^ 12)) None [(16, 4), (9 * 10 ^ 12, 3 * 10 ^ 6)]) UNI
       \<noteq> []"
proof -
  let ?empty = "market NotOk None (Some (0, 5)) None []"
  let ?full = "market NotOk None (Some (1, 9 * 10 ^ 12)) None []"
  let ?dry = "market NotOk None None (Some (2 ^ 96, 0)) []"
  let ?m = "market NotOk (Some (2, 8)) (Some (1, 9 * 10 ^ 12)) None [(16, 4), (9 * 10 ^ 12, 3 * 10 ^ 6)]"
  note empty_pair = resolve_empty_pair_and_zero_rates [THEN conjunct1, THEN mp]
  note with_meta = resolve_empty_pair_and_zero_rates [THEN conjunct2, THEN conjunct1, THEN mp]
  note funded_pair = with_meta [THEN conjunct1, THEN mp]
  note pool_token0 = with_meta [THEN conjunct2, THEN conjunct1, THEN mp]
  note pool_token1 = with_meta [THEN conjunct2, THEN conjunct2, THEN mp]
  note no_liquidity = resolve_empty_pair_and_zero_rates
    [THEN conjunct2, THEN conjunct2, THEN conjunct2, THEN conjunct1]
  note no_zero = resolve_empty_pair_and_zero_rates
    [THEN conjunct2, THEN conjunct2, THEN conjunct2, THEN conjunct2, THEN conjunct2]
  have e: "call_slot0 ?empty ''0xpoolB'' = None \<and> call_getReserves ?empty ''0xpoolB'' = Some (0, 5)
      \<and> ((0::nat) = 0 \<or> (5::nat) = 0)"
    by (simp add: market_def)
  from empty_pair [OF e] have a: "getTokenPriceFromPool ?empty UNI ''0xpoolB'' = None" .
  have fmeta: "call_token0 ?full ''0xpoolB'' = Some UNI \<and> call_token1 ?full ''0xpoolB'' = Some USDC
        \<and> call_decimals ?full UNI = Some 18 \<and> call_decimals ?full USDC = Some 6
        \<and> call_symbol ?full UNI = Some ''UNI'' \<and> call_symbol ?full USDC = Some ''USDC''"
    by (simp add: market_defs)
  have fres: "call_slot0 ?full ''0xpoolB'' = None
        \<and> call_getReserves ?full ''0xpoolB'' = Some (1, 9 * 10 ^ 12) \<and> (0::nat) < 1 \<and> (0::nat) < 9 * 10 ^ 12"
    by (simp add: market_def)
  from funded_pair [OF fmeta fres, of UNI]
  have b: "getTokenPriceFromPool ?full UNI ''0xpoolB''
       = Some \<lparr>quote_priceInWei = ''9'', quote_baseToken = USDC, quote_baseTokenSymbol = ''USDC''\<rparr>"
    by (simp add: show_nat.simps digit_char_def)
  have dmeta: "call_token0 ?dry ''0xpoolC'' = Some USDC \<and> call_token1 ?dry ''0xpoolC'' = Some WETH_ADDRESS
        \<and> call_decimals ?dry USDC = Some 6 \<and> call_decimals ?dry WETH_ADDRESS = Some 18
        \<and> call_symbol ?dry USDC = Some ''USDC'' \<and> call_symbol ?dry WETH_ADDRESS = Some ''WETH''"
    by (simp add: market_defs)
  have same: "call_slot0 ?dry ''0xpoolC'' = Some (2 ^ 96) \<and> toLowerCase USDC = toLowerCase USDC"
    by (simp add: market_def)
  have other: "call_slot0 ?dry ''0xpoolC'' = Some (2 ^ 96)
      \<and> toLowerCase USDC \<noteq> toLowerCase WETH_ADDRESS \<and> (0::nat) < 2 ^ 96"
    by (simp add: market_def USDC_def WETH_ADDRESS_def toLowerCase_def lower_char_def)
  from pool_token0 [OF dmeta same]
  have c: "getTokenPriceFromPool ?dry USDC ''0xpoolC''
       = Some \<lparr>quote_priceInWei = ''1000000000000'', quote_baseToken = WETH_ADDRESS,
               quote_baseTokenSymbol = ''WETH''\<rparr>"
    by (simp add: show_nat.simps digit_char_def)
  from pool_token1 [OF dmeta other]
  have d: "getTokenPriceFromPool ?dry WETH_ADDRESS ''0xpoolC''
       = Some \<lparr>quote_priceInWei = ''1000000'', quote_baseToken = USDC,
               quote_baseTokenSymbol = ''USDC''\<rparr>"
    by (simp add: show_nat.simps digit_char_def)
  have f: "getTokenPriceFromPool (?dry\<lparr>call_liquidity := \<lambda>p. Some 7\<rparr>) USDC ''0xpoolC''
       = getTokenPriceFromPool ?dry USDC ''0xpoolC''"
    by (rule no_liquidity)
  have "\<forall>r \<in> set (getAllAvailablePrices ?m UNI). priceInWei r \<noteq> ''0''"
    by (rule no_zero)
  then have g: "''0'' \<notin> priceInWei ` set (getAllAvailablePrices ?m UNI)" by auto
  have h: "getAllAvailablePrices ?m UNI \<noteq> []" by (simp only: market_prices) simp
  from a b c d f g h show ?thesis by (intro conjI)
qed

text \<open>
  Claim C4 as stated fails.  A constant-product pair with reserves \<open>10\<^sup>3\<^sup>3\<close> and \<open>1\<close> is
  priced at the text \<open>0\<close> (the quotient truncates to zero, with the code's scaling and with
  the documented one alike), and a concentrated-liquidity pool whose liquidity is zero is
  priced from its \<open>sqrtPriceX96\<close> all the same.
\<close>

theorem positive_pool_zero_rate_counterexample:
  "call_getReserves (market NotOk (Some (10 ^ 33, 1)) None None []) ''0xpoolA'' = Some (10 ^ 33, 1)
   \<and> getTokenPriceFromPool (market NotOk (Some (10 ^ 33, 1)) None None []) UNI ''0xpoolA''
       = Some \<lparr>quote_priceInWei = ''0'', quote_baseToken = WETH_ADDRESS, quote_baseTokenSymbol = ''WETH''\<rparr>
   \<and> call_liquidity (market NotOk None None (Some (2 ^ 96, 0)) []) ''0xpoolC'' = Some 0
   \<and> getTokenPriceFromPool (market NotOk None None (Some (2 ^ 96, 0)) []) USDC ''0xpoolC''
       = Some \<lparr>quote_priceInWei = ''1000000000000'', quote_baseToken = WETH_ADDRESS,
               quote_baseTokenSymbol = ''WETH''\<rparr>"
  by (simp add: market_defs price_defs)


text \<open>
  Claim C2 on the code.  For the USDC/WETH pool of the repository's test, one WETH is worth
  3000137565 smallest units of USDC; \<open>getTokenPriceFromPool\<close> returns \<open>0\<close>.  For a UNI/WETH
  pair holding 1000 UNI and 3 WETH, one UNI is worth \<open>3\<cdot>10\<^sup>1\<^sup>5\<close> wei; the method returns \<open>0\<close>.
\<close>

theorem computed_rate_is_not_the_documented_rate:
  "getTokenPriceFromPool (market NotOk None None (Some (18257 * 2 ^ 96, 5 * 10 ^ 18)) [])
       WETH_ADDRESS ''0xpoolC''
     = Some \<lparr>quote_priceInWei = ''0'', quote_baseToken = USDC, quote_baseTokenSymbol = ''USDC''\<rparr>
   \<and> show_nat (token0UnitsPerWholeToken1 (18257 * 2 ^ 96) 18) = ''3000137565''
   \<and> getTokenPriceFromPool (market NotOk (Some (1000 * 10 ^ 18, 3 * 10 ^ 18)) None None [])
       UNI ''0xpoolA''
     = Some \<lparr>quote_priceInWei = ''0'', quote_baseToken = WETH_ADDRESS, quote_baseTokenSymbol = ''WETH''\<rparr>
   \<and> show_nat (referenceUnitsPerWholeToken (1000 * 10 ^ 18) (3 * 10 ^ 18) 18) = ''3000000000000000''"
  by (simp add: market_defs price_defs token0UnitsPerWholeToken1_def referenceUnitsPerWholeToken_def)


text \<open>
  Claim C7 on the code.  Resolving both sides of one pool gives \<open>0\<close> and \<open>333\<close> for the
  UNI/WETH pair, and \<open>333318049000000000000\<close> and \<open>0\<close> for the USDC/WETH pool: the product of
  the two rates is zero.
\<close>

theorem reciprocal_rates_multiply_to_zero:
  "map (map_option quote_priceInWei)
       [getTokenPriceFromPool (market NotOk (Some (1000 * 10 ^ 18, 3 * 10 ^ 18)) None None [])
          UNI ''0xpoolA'',
        getTokenPriceFromPool (market NotOk (Some (1000 * 10 ^ 18, 3 * 10 ^ 18)) None None [])
          WETH_ADDRESS ''0xpoolA'']
     = [Some ''0'', Some ''333'']
   \<and> map (map_option quote_priceInWei)
       [getTokenPriceFromPool (market NotOk None None (Some (18257 * 2 ^ 96, 5 * 10 ^ 18)) [])
          USDC ''0xpoolC'',
        getTokenPriceFromPool (market NotOk None None (Some (18257 * 2 ^ 96, 5 * 10 ^ 18)) [])
          WETH_ADDRESS ''0xpoolC'']
     = [Some ''333318049000000000000'', Some ''0'']"
  by (simp add: market_defs price_defs)

end
